theory Spec2Isabelle
  imports Complex_Main
begin

section \<open>Python and numpy primitives used by the DSDE modules\<close>

text \<open>
  The DSDE package (\<^verbatim>\<open>dsde/signals.py\<close>, \<^verbatim>\<open>dsde/adapter.py\<close>, \<^verbatim>\<open>dsde/core.py\<close>,
  \<^verbatim>\<open>dsde/utils.py\<close>) computes with Python floats and unbounded Python integers.
  Floats are modelled as real numbers (no rounding error, no infinities or NaN) and
  integers as \<^typ>\<open>int\<close>. Where Python raises, the model returns \<open>Inl\<close> of the error.
\<close>

datatype py_error = ZeroDivisionError | ValueError | TypeError | KeyError | RuntimeError

text \<open>\<^verbatim>\<open>int(x)\<close> of a float truncates towards zero.\<close>

definition py_int :: "real \<Rightarrow> int" where
  "py_int x = (if 0 \<le> x then \<lfloor>x\<rfloor> else \<lceil>x\<rceil>)"

text \<open>\<^verbatim>\<open>round(x)\<close> of a float (Python 3) rounds to the nearest integer, a tie to the even one.\<close>

definition py_round :: "real \<Rightarrow> int" where
  "py_round x =
     (let f = \<lfloor>x\<rfloor>; d = x - of_int f
      in if d < 1 / 2 then f else if 1 / 2 < d then f + 1 else if even f then f else f + 1)"

text \<open>The slice \<^verbatim>\<open>xs[s:]\<close>: a negative start counts from the end, and both ends saturate.\<close>

definition py_slice_from :: "'a list \<Rightarrow> int \<Rightarrow> 'a list" where
  "py_slice_from xs s =
     (if s < 0 then drop (nat (int (length xs) + s)) xs else drop (nat s) xs)"

text \<open>\<^verbatim>\<open>np.mean\<close>, \<^verbatim>\<open>np.var\<close> (population variance) and \<^verbatim>\<open>np.std\<close> of a non-empty list.\<close>

definition np_mean :: "real list \<Rightarrow> real" where
  "np_mean xs = sum_list xs / real (length xs)"

definition np_var :: "real list \<Rightarrow> real" where
  "np_var xs = np_mean (map (\<lambda>x. (x - np_mean xs)\<^sup>2) xs)"

definition np_std :: "real list \<Rightarrow> real" where
  "np_std xs = sqrt (np_var xs)"

text \<open>
  \<^verbatim>\<open>collections.deque(maxlen=n)\<close>: the bound is fixed when the deque is created
  (a negative bound raises \<^verbatim>\<open>ValueError\<close>); \<^verbatim>\<open>append\<close> on a full deque drops the
  leftmost item first, and on a deque of bound 0 it stores nothing.
\<close>

datatype 'a deque = Deque (maxlen: nat) (items: "'a list")

definition deque_new :: "int \<Rightarrow> py_error + 'a deque" where
  "deque_new n = (if n < 0 then Inl ValueError else Inr (Deque (nat n) []))"

definition deque_append :: "'a deque \<Rightarrow> 'a \<Rightarrow> 'a deque" where
  "deque_append d x =
     (if maxlen d = 0 then d
      else if length (items d) < maxlen d then Deque (maxlen d) (items d @ [x])
      else Deque (maxlen d) (tl (items d) @ [x]))"

section \<open>signals.py\<close>

record SignalConfig =
  short_window_size :: int
  long_window_size :: int
  min_history_length :: int
  kld_threshold :: real
  variance_threshold :: real
  entropy_weight :: real
  kld_weight :: real

definition default_SignalConfig :: SignalConfig where
  "default_SignalConfig =
     \<lparr>short_window_size = 4, long_window_size = 12, min_history_length = 2,
      kld_threshold = 1 / 10, variance_threshold = 5 / 100,
      entropy_weight = 3 / 10, kld_weight = 7 / 10\<rparr>"

subsection \<open>KLDVarianceSignal\<close>

text \<open>
  \<^verbatim>\<open>KLDVarianceSignal.compute_kld\<close>: the torch computation (softmax of both logit
  vectors, \<^verbatim>\<open>F.kl_div\<close> summed) is the parameter \<open>torch_kld\<close>, \<open>None\<close> when it raises;
  the method returns \<^verbatim>\<open>max(0.0, kld)\<close>, and 0.0 after an exception.
\<close>

definition compute_kld :: "('l \<Rightarrow> 'l \<Rightarrow> real option) \<Rightarrow> 'l \<Rightarrow> 'l \<Rightarrow> real" where
  "compute_kld torch_kld draft_logits target_logits =
     (case torch_kld draft_logits target_logits of None \<Rightarrow> 0 | Some kld \<Rightarrow> max 0 kld)"

text \<open>
  \<^verbatim>\<open>KLDVarianceSignal.update_history\<close>: creates the per-sequence deque on first use, then
  appends every value of the step in order.
\<close>

definition kld_update_history ::
  "SignalConfig \<Rightarrow> (string \<rightharpoonup> real deque) \<Rightarrow> string \<Rightarrow> real list \<Rightarrow>
     py_error + (string \<rightharpoonup> real deque)" where
  "kld_update_history cfg hs sid kld_values =
     (case hs sid of
        Some d \<Rightarrow> Inr (hs(sid \<mapsto> foldl deque_append d kld_values))
      | None \<Rightarrow>
          (case deque_new (long_window_size cfg) of
             Inl e \<Rightarrow> Inl e
           | Inr d \<Rightarrow> Inr (hs(sid \<mapsto> foldl deque_append d kld_values))))"

text \<open>\<^verbatim>\<open>KLDVarianceSignal.get_regional_stability\<close>.\<close>

definition get_regional_stability ::
  "SignalConfig \<Rightarrow> (string \<rightharpoonup> real deque) \<Rightarrow> string \<Rightarrow> real" where
  "get_regional_stability cfg hs sid =
     (case hs sid of
        None \<Rightarrow> 1 / 2
      | Some d \<Rightarrow>
          (let history = items d in
           if int (length history) < min_history_length cfg then 1 / 2
           else
             (let recent_klds = py_slice_from history (- short_window_size cfg) in
              if length recent_klds < 2 then 1 / 2
              else
                (let variance = np_var recent_klds;
                     stability = 1 / (1 + variance)
                 in min 1 (max 0 stability)))))"

text \<open>
  \<^verbatim>\<open>KLDVarianceSignal.predict_acceptance_likelihood\<close>. Its only caller passes the
  entropy \<^verbatim>\<open>compute_entropy\<close> returned, which is at least 0, so the divisor is at least 1.
\<close>

definition predict_acceptance_likelihood ::
  "SignalConfig \<Rightarrow> (string \<rightharpoonup> real deque) \<Rightarrow> string \<Rightarrow> real option \<Rightarrow> real" where
  "predict_acceptance_likelihood cfg hs sid draft_entropy =
     (let stability = get_regional_stability cfg hs sid;
          base_likelihood = stability;
          combined_likelihood =
            (case draft_entropy of
               Some e \<Rightarrow>
                 kld_weight cfg * base_likelihood + entropy_weight cfg * (1 / (1 + e))
             | None \<Rightarrow> base_likelihood)
      in min 1 (max 0 combined_likelihood))"

subsection \<open>WVIRCalculator\<close>

text \<open>
  The two windows and their variances, as \<^verbatim>\<open>calculate_wvir\<close> computes them. The
  function is given the two floating-point operations it uses: \<open>var\<close> stands for
  \<^verbatim>\<open>np.var\<close> and \<open>quot\<close> for the division of two floats. Nothing is assumed of either,
  so what is proved of \<^verbatim>\<open>calculate_wvir\<close> holds for the rounded results of the code as
  well as for the exact \<^const>\<open>np_var\<close> and the division of the reals.
\<close>

definition short_window :: "SignalConfig \<Rightarrow> real list \<Rightarrow> real list" where
  "short_window cfg kld_history = py_slice_from kld_history (- short_window_size cfg)"

definition long_window :: "SignalConfig \<Rightarrow> real list \<Rightarrow> real list" where
  "long_window cfg kld_history =
     (if long_window_size cfg \<le> int (length kld_history)
      then py_slice_from kld_history (- long_window_size cfg) else kld_history)"

definition short_var :: "(real list \<Rightarrow> real) \<Rightarrow> SignalConfig \<Rightarrow> real list \<Rightarrow> real" where
  "short_var var cfg kld_history =
     (if 1 < length (short_window cfg kld_history)
      then var (short_window cfg kld_history) else 0)"

definition long_var :: "(real list \<Rightarrow> real) \<Rightarrow> SignalConfig \<Rightarrow> real list \<Rightarrow> real" where
  "long_var var cfg kld_history =
     (if 1 < length (long_window cfg kld_history)
      then var (long_window cfg kld_history) else 0)"

definition calculate_wvir ::
  "(real list \<Rightarrow> real) \<Rightarrow> (real \<Rightarrow> real \<Rightarrow> real) \<Rightarrow> SignalConfig \<Rightarrow> real list \<Rightarrow> real" where
  "calculate_wvir var quot cfg kld_history =
     (if int (length kld_history) < short_window_size cfg then 0
      else if long_var var cfg kld_history = 0
      then (if 0 < short_var var cfg kld_history then 1 else 0)
      else min 10 (max 0 (quot (short_var var cfg kld_history)
                            (long_var var cfg kld_history))))"

definition get_stability_classification :: "real \<Rightarrow> string" where
  "get_stability_classification wvir =
     (if wvir < 1 / 2 then ''highly_stable''
      else if wvir < 1 then ''stable''
      else if wvir < 2 then ''moderate''
      else if wvir < 4 then ''unstable''
      else ''highly_unstable'')"

subsection \<open>EntropySignal\<close>

text \<open>
  \<^verbatim>\<open>EntropySignal.compute_entropy\<close>: the torch computation is the parameter
  \<open>torch_entropy\<close>, \<open>None\<close> when it raises; the method returns \<^verbatim>\<open>max(0.0, entropy)\<close>,
  and 0.0 after an exception.
\<close>

definition compute_entropy :: "('l \<Rightarrow> real option) \<Rightarrow> 'l \<Rightarrow> real" where
  "compute_entropy torch_entropy logits =
     (case torch_entropy logits of None \<Rightarrow> 0 | Some entropy \<Rightarrow> max 0 entropy)"

text \<open>\<^verbatim>\<open>EntropySignal.update_history\<close>: a deque of bound 10 per sequence.\<close>

definition entropy_update_history ::
  "(string \<rightharpoonup> real deque) \<Rightarrow> string \<Rightarrow> real \<Rightarrow> (string \<rightharpoonup> real deque)" where
  "entropy_update_history eh sid entropy =
     (case eh sid of
        Some d \<Rightarrow> eh(sid \<mapsto> deque_append d entropy)
      | None \<Rightarrow> eh(sid \<mapsto> deque_append (Deque 10 []) entropy))"

text \<open>\<^verbatim>\<open>EntropySignal.get_trend\<close>: compares the last of the three latest samples with the first.\<close>

definition get_trend :: "(string \<rightharpoonup> real deque) \<Rightarrow> string \<Rightarrow> string" where
  "get_trend eh sid =
     (case eh sid of
        None \<Rightarrow> ''stable''
      | Some d \<Rightarrow>
          if length (items d) < 3 then ''stable''
          else
            (let recent = py_slice_from (items d) (- 3) in
             if hd recent * (11 / 10) < last recent then ''increasing''
             else if last recent < hd recent * (9 / 10) then ''decreasing''
             else ''stable''))"

subsection \<open>CombinedSignalProcessor\<close>

text \<open>
  The processor owns a \<^verbatim>\<open>KLDVarianceSignal\<close>, a \<^verbatim>\<open>WVIRCalculator\<close> and an
  \<^verbatim>\<open>EntropySignal\<close>, all built from the one configuration; its mutable state is the two
  per-sequence dictionaries.
\<close>

record CombinedSignalProcessor =
  sp_config :: SignalConfig
  sequence_histories :: "string \<rightharpoonup> real deque"
  entropy_history :: "string \<rightharpoonup> real deque"

definition new_CombinedSignalProcessor :: "SignalConfig \<Rightarrow> CombinedSignalProcessor" where
  "new_CombinedSignalProcessor cfg =
     \<lparr>sp_config = cfg, sequence_histories = Map.empty, entropy_history = Map.empty\<rparr>"

text \<open>The dictionary \<^verbatim>\<open>get_sequence_metrics\<close> returns: only \<^verbatim>\<open>stability\<close> is always present.\<close>

record Metrics =
  m_stability :: real
  m_wvir :: "real option"
  m_mean_kld :: "real option"
  m_current_entropy :: "real option"
  m_entropy_trend :: "string option"

definition get_sequence_metrics :: "CombinedSignalProcessor \<Rightarrow> string \<Rightarrow> Metrics" where
  "get_sequence_metrics sp sid =
     (let history = (case sequence_histories sp sid of None \<Rightarrow> [] | Some d \<Rightarrow> items d);
          recent_entropy = (case entropy_history sp sid of None \<Rightarrow> [] | Some d \<Rightarrow> items d)
      in \<lparr>m_stability = get_regional_stability (sp_config sp) (sequence_histories sp) sid,
          m_wvir = (if history = [] then None
                    else Some (calculate_wvir np_var (/) (sp_config sp) history)),
          m_mean_kld = (if history = [] then None
                        else if 5 \<le> length history
                        then Some (np_mean (py_slice_from history (- 5)))
                        else Some (np_mean history)),
          m_current_entropy = (if recent_entropy = [] then None
                               else Some (last recent_entropy)),
          m_entropy_trend = (if recent_entropy = [] then None
                             else Some (get_trend (entropy_history sp) sid))\<rparr>)"

text \<open>The dictionary \<^verbatim>\<open>process_verification_step\<close> returns.\<close>

record StepResults =
  r_stability :: real
  r_wvir :: "real option"
  r_stability_class :: "string option"
  r_entropy :: "real option"
  r_entropy_trend :: "string option"
  r_acceptance_rate :: "real option"
  r_next_acceptance_likelihood :: real

text \<open>
  \<^verbatim>\<open>process_verification_step\<close>. The logits are torch tensors, of a type \<open>'l\<close> the
  model leaves open.
\<close>

definition process_verification_step ::
  "('l \<Rightarrow> 'l \<Rightarrow> real option) \<Rightarrow> ('l \<Rightarrow> real option) \<Rightarrow> CombinedSignalProcessor \<Rightarrow>
     string \<Rightarrow>
     'l list \<Rightarrow> 'l list \<Rightarrow> int \<Rightarrow> py_error + (StepResults \<times> CombinedSignalProcessor)" where
  "process_verification_step torch_kld torch_entropy sp sid draft_logits target_logits
       accepted_tokens =
     (let kld_values = map (\<lambda>(d, t). compute_kld torch_kld d t)
                         (zip draft_logits target_logits)
      in case kld_update_history (sp_config sp) (sequence_histories sp) sid kld_values of
           Inl e \<Rightarrow> Inl e
         | Inr hs \<Rightarrow>
             (let stability = get_regional_stability (sp_config sp) hs sid;
                  wvir = (case hs sid of
                            None \<Rightarrow> None
                          | Some d \<Rightarrow> Some (calculate_wvir np_var (/) (sp_config sp) (items d)));
                  entropy = (case draft_logits of
                               [] \<Rightarrow> None
                             | l # _ \<Rightarrow> Some (compute_entropy torch_entropy l));
                  eh = (case entropy of
                          None \<Rightarrow> entropy_history sp
                        | Some e \<Rightarrow> entropy_update_history (entropy_history sp) sid e)
              in Inr (\<lparr>r_stability = stability,
                        r_wvir = wvir,
                        r_stability_class = map_option get_stability_classification wvir,
                        r_entropy = entropy,
                        r_entropy_trend = map_option (\<lambda>_. get_trend eh sid) entropy,
                        r_acceptance_rate =
                          (if draft_logits = [] then None
                           else Some (real_of_int accepted_tokens / real (length draft_logits))),
                        r_next_acceptance_likelihood =
                          predict_acceptance_likelihood (sp_config sp) hs sid entropy\<rparr>,
                      sp\<lparr>sequence_histories := hs, entropy_history := eh\<rparr>)))"

section \<open>adapter.py\<close>

record AdapterConfig =
  min_speculation_length :: int
  max_speculation_length :: int
  default_speculation_length :: int
  stability_threshold_high :: real
  stability_threshold_low :: real
  wvir_threshold_stable :: real
  wvir_threshold_unstable :: real
  adaptation_rate :: real
  history_weight :: real
  min_acceptance_rate :: real
  target_acceptance_rate :: real
  enable_batch_capping :: bool
  straggler_tolerance :: real

definition default_AdapterConfig :: AdapterConfig where
  "default_AdapterConfig =
     \<lparr>min_speculation_length = 1, max_speculation_length = 8,
      default_speculation_length = 4,
      stability_threshold_high = 7 / 10, stability_threshold_low = 3 / 10,
      wvir_threshold_stable = 1, wvir_threshold_unstable = 3,
      adaptation_rate = 2 / 10, history_weight = 8 / 10,
      min_acceptance_rate = 3 / 10, target_acceptance_rate = 7 / 10,
      enable_batch_capping = True, straggler_tolerance = 2\<rparr>"

subsection \<open>SpeculationLengthAdapter\<close>

text \<open>An entry of the \<^verbatim>\<open>sequence_performance\<close> defaultdict (the time stamp is left out).\<close>

record Perf =
  recent_acceptance_rates :: "real deque"
  recent_speculation_lengths :: "int deque"
  total_tokens_generated :: int
  total_tokens_accepted :: int

definition default_Perf :: Perf where
  "default_Perf =
     \<lparr>recent_acceptance_rates = Deque 10 [], recent_speculation_lengths = Deque 10 [],
      total_tokens_generated = 0, total_tokens_accepted = 0\<rparr>"

text \<open>An entry of \<^verbatim>\<open>sequence_states\<close> (the time stamp is left out).\<close>

record SeqState =
  last_predicted_sl :: real
  last_metrics :: Metrics
  prediction_count :: int

record SpeculationLengthAdapter =
  adapter_config :: AdapterConfig
  signal_processor :: CombinedSignalProcessor
  sequence_states :: "string \<rightharpoonup> SeqState"
  sequence_performance :: "string \<rightharpoonup> Perf"

definition new_SpeculationLengthAdapter ::
  "AdapterConfig \<Rightarrow> SignalConfig \<Rightarrow> SpeculationLengthAdapter" where
  "new_SpeculationLengthAdapter acfg scfg =
     \<lparr>adapter_config = acfg, signal_processor = new_CombinedSignalProcessor scfg,
      sequence_states = Map.empty, sequence_performance = Map.empty\<rparr>"

text \<open>Reading \<^verbatim>\<open>sequence_performance[sequence_id]\<close> inserts the default entry for a new key.\<close>

definition perf_touch :: "(string \<rightharpoonup> Perf) \<Rightarrow> string \<Rightarrow> (string \<rightharpoonup> Perf)" where
  "perf_touch pm sid = (case pm sid of None \<Rightarrow> pm(sid \<mapsto> default_Perf) | Some _ \<Rightarrow> pm)"

definition perf_get :: "(string \<rightharpoonup> Perf) \<Rightarrow> string \<Rightarrow> Perf" where
  "perf_get pm sid = (case pm sid of None \<Rightarrow> default_Perf | Some p \<Rightarrow> p)"

text \<open>
  \<^verbatim>\<open>_predict_from_stability\<close>. The interpolation divides by the difference of the two
  stability thresholds: for equal thresholds Python raises \<^verbatim>\<open>ZeroDivisionError\<close> (or,
  for a numpy scalar, yields a non-finite float, which the model reports as the same error).
\<close>

definition predict_from_stability :: "AdapterConfig \<Rightarrow> Metrics \<Rightarrow> py_error + real" where
  "predict_from_stability cfg metrics =
     (let stability = m_stability metrics;
          wvir = (case m_wvir metrics of None \<Rightarrow> 1 | Some w \<Rightarrow> w);
          entropy = (case m_current_entropy metrics of None \<Rightarrow> 2 | Some e \<Rightarrow> e);
          base =
            (if stability_threshold_high cfg < stability \<and> wvir < wvir_threshold_stable cfg
             then Inr (real_of_int (max_speculation_length cfg) * (8 / 10))
             else if stability < stability_threshold_low cfg \<or> wvir_threshold_unstable cfg < wvir
             then Inr (real_of_int (min_speculation_length cfg) * (15 / 10))
             else if stability_threshold_high cfg - stability_threshold_low cfg = 0
             then Inl ZeroDivisionError
             else
               (let stability_factor =
                      max 0 (min 1 ((stability - stability_threshold_low cfg) /
                        (stability_threshold_high cfg - stability_threshold_low cfg)))
                in Inr (real_of_int (min_speculation_length cfg) +
                     stability_factor *
                       real_of_int (max_speculation_length cfg - min_speculation_length cfg))))
      in case base of
           Inl e \<Rightarrow> Inl e
         | Inr base_sl \<Rightarrow>
             if entropy < 1 then Inr (base_sl * (12 / 10))
             else if 4 < entropy then Inr (base_sl * (8 / 10))
             else Inr base_sl)"

text \<open>
  \<^verbatim>\<open>_adjust_for_history\<close>. The low-acceptance branch divides by \<^verbatim>\<open>min_acceptance_rate\<close>;
  a zero divisor is reported as \<^verbatim>\<open>ZeroDivisionError\<close> (numpy yields a non-finite float).
\<close>

definition adjust_for_history ::
  "AdapterConfig \<Rightarrow> (string \<rightharpoonup> Perf) \<Rightarrow> string \<Rightarrow> real \<Rightarrow> py_error + real" where
  "adjust_for_history cfg pm sid base_sl =
     (let rates = items (recent_acceptance_rates (perf_get pm sid)) in
      if rates = [] then Inr base_sl
      else
        (let recent_acceptance = np_mean rates;
             adjustment =
               (if target_acceptance_rate cfg < recent_acceptance
                then Inr (1 + (recent_acceptance - target_acceptance_rate cfg) * 2)
                else if recent_acceptance < min_acceptance_rate cfg
                then (if min_acceptance_rate cfg = 0 then Inl ZeroDivisionError
                      else Inr (1 / 2 + (recent_acceptance / min_acceptance_rate cfg) * (1 / 2)))
                else Inr (1 + (recent_acceptance - target_acceptance_rate cfg) * (1 / 2)))
         in case adjustment of
              Inl e \<Rightarrow> Inl e
            | Inr a \<Rightarrow>
                Inr (base_sl * (history_weight cfg * a + (1 - history_weight cfg) * 1))))"

text \<open>
  The context dictionary: string keys, values that are strings or numbers. An ordering
  comparison of a string with a number raises \<^verbatim>\<open>TypeError\<close>.
\<close>

datatype py_value = Str string | Num real

definition dict_get :: "(string \<times> py_value) list \<Rightarrow> string \<Rightarrow> py_value \<Rightarrow> py_value" where
  "dict_get d k dflt = (case map_of d k of None \<Rightarrow> dflt | Some v \<Rightarrow> v)"

definition num_gt :: "py_value \<Rightarrow> real \<Rightarrow> py_error + bool" where
  "num_gt v c = (case v of Num x \<Rightarrow> Inr (c < x) | Str _ \<Rightarrow> Inl TypeError)"

definition num_lt :: "py_value \<Rightarrow> real \<Rightarrow> py_error + bool" where
  "num_lt v c = (case v of Num x \<Rightarrow> Inr (x < c) | Str _ \<Rightarrow> Inl TypeError)"

text \<open>The two-sided test \<^verbatim>\<open>if v > hi: a  elif v < lo: b\<close> as a factor on the length.\<close>

definition band_factor ::
  "py_value \<Rightarrow> real \<Rightarrow> real \<Rightarrow> real \<Rightarrow> real \<Rightarrow> py_error + real" where
  "band_factor v hi f_hi lo f_lo =
     (case num_gt v hi of
        Inl e \<Rightarrow> Inl e
      | Inr True \<Rightarrow> Inr f_hi
      | Inr False \<Rightarrow>
          (case num_lt v lo of
             Inl e \<Rightarrow> Inl e
           | Inr True \<Rightarrow> Inr f_lo
           | Inr False \<Rightarrow> Inr 1))"

text \<open>\<^verbatim>\<open>_adjust_for_context\<close>: no dictionary or an empty one leaves the length unchanged.\<close>

definition adjust_for_context ::
  "real \<Rightarrow> (string \<times> py_value) list option \<Rightarrow> py_error + real" where
  "adjust_for_context base_sl context_info =
     (case context_info of
        None \<Rightarrow> Inr base_sl
      | Some [] \<Rightarrow> Inr base_sl
      | Some ctx \<Rightarrow>
          (let task_type = dict_get ctx ''task_type'' (Str ''general'');
               sl1 = (if task_type = Str ''code_generation'' then base_sl * (11 / 10)
                      else if task_type = Str ''creative_writing'' then base_sl * (9 / 10)
                      else if task_type = Str ''dialogue'' then base_sl * (95 / 100)
                      else base_sl)
           in case band_factor (dict_get ctx ''current_length'' (Num 0))
                     1000 (105 / 100) 50 (95 / 100) of
                Inl e \<Rightarrow> Inl e
              | Inr f2 \<Rightarrow>
                  (case band_factor (dict_get ctx ''temperature'' (Num 1))
                          (15 / 10) (9 / 10) (3 / 10) (11 / 10) of
                     Inl e \<Rightarrow> Inl e
                   | Inr f3 \<Rightarrow> Inr (sl1 * f2 * f3))))"

text \<open>The clamp of \<^verbatim>\<open>predict_optimal_sl\<close>: \<^verbatim>\<open>max(min_sl, min(max_sl, x))\<close>.\<close>

definition clamp_sl :: "AdapterConfig \<Rightarrow> real \<Rightarrow> real" where
  "clamp_sl cfg x =
     max (real_of_int (min_speculation_length cfg))
       (min (real_of_int (max_speculation_length cfg)) x)"

text \<open>\<^verbatim>\<open>_update_sequence_state\<close>.\<close>

definition update_sequence_state ::
  "(string \<rightharpoonup> SeqState) \<Rightarrow> string \<Rightarrow> real \<Rightarrow> Metrics \<Rightarrow> (string \<rightharpoonup> SeqState)" where
  "update_sequence_state ss sid predicted_sl metrics =
     ss(sid \<mapsto>
       \<lparr>last_predicted_sl = predicted_sl, last_metrics = metrics,
        prediction_count =
          (case ss sid of None \<Rightarrow> 0 | Some s \<Rightarrow> prediction_count s) + 1\<rparr>)"

text \<open>
  The value pipeline of \<^verbatim>\<open>predict_optimal_sl\<close> up to the context adjustment: stability
  base, history adjustment, context adjustment.
\<close>

definition context_adjusted_sl ::
  "SpeculationLengthAdapter \<Rightarrow> string \<Rightarrow> (string \<times> py_value) list option \<Rightarrow>
     py_error + real" where
  "context_adjusted_sl ad sid context_info =
     (case predict_from_stability (adapter_config ad)
             (get_sequence_metrics (signal_processor ad) sid) of
        Inl e \<Rightarrow> Inl e
      | Inr base_sl \<Rightarrow>
          (case adjust_for_history (adapter_config ad)
                  (perf_touch (sequence_performance ad) sid) sid base_sl of
             Inl e \<Rightarrow> Inl e
           | Inr history_adjusted_sl \<Rightarrow> adjust_for_context history_adjusted_sl context_info))"

text \<open>
  \<^verbatim>\<open>predict_optimal_sl\<close>: returns \<^verbatim>\<open>int(final_sl)\<close> and the adapter as the call leaves
  it. The performance entry is created before anything can raise; the sequence state is
  written only on the way to the return.
\<close>

definition predict_optimal_sl ::
  "SpeculationLengthAdapter \<Rightarrow> string \<Rightarrow> (string \<times> py_value) list option \<Rightarrow>
     (py_error + int) \<times> SpeculationLengthAdapter" where
  "predict_optimal_sl ad sid context_info =
     (let metrics = get_sequence_metrics (signal_processor ad) sid;
          ad1 = ad\<lparr>sequence_performance := perf_touch (sequence_performance ad) sid\<rparr>
      in case context_adjusted_sl ad sid context_info of
           Inl e \<Rightarrow> (Inl e, ad1)
         | Inr ctx_sl \<Rightarrow>
             (let final_sl = clamp_sl (adapter_config ad) ctx_sl
              in (Inr (py_int final_sl),
                  ad1\<lparr>sequence_states :=
                        update_sequence_state (sequence_states ad1) sid final_sl metrics\<rparr>)))"


subsection \<open>BatchOptimizer of adapter.py\<close>

text \<open>
  \<^verbatim>\<open>_calculate_adaptive_sl_cap\<close>: the mean (weighted when priorities are given, the
  total weight floored at \<^verbatim>\<open>1e-8\<close>), rounded by \<^verbatim>\<open>round\<close> and clamped.
\<close>

definition calculate_adaptive_sl_cap ::
  "AdapterConfig \<Rightarrow> int list \<Rightarrow> real list option \<Rightarrow> int" where
  "calculate_adaptive_sl_cap cfg predicted_sls priorities =
     (if predicted_sls = [] then default_speculation_length cfg
      else
        (let sl_cap =
               (case priorities of
                  None \<Rightarrow> real_of_int (sum_list predicted_sls) / real (length predicted_sls)
                | Some ps \<Rightarrow>
                    sum_list (map (\<lambda>(sl, p). real_of_int sl * p) (zip predicted_sls ps)) /
                      max (sum_list ps) (1 / 10 ^ 8))
         in max (min_speculation_length cfg)
              (min (max_speculation_length cfg) (py_round sl_cap))))"

text \<open>
  \<^verbatim>\<open>_apply_batch_balancing\<close>: when the standard deviation exceeds half the mean, every
  length further than \<^verbatim>\<open>straggler_tolerance * std\<close> from the mean is moved 30 percent of
  the way to the mean, rounded, and clamped to \<^verbatim>\<open>[1, max_sl]\<close>.
\<close>

definition apply_batch_balancing :: "AdapterConfig \<Rightarrow> int list \<Rightarrow> int list" where
  "apply_batch_balancing cfg speculation_lengths =
     (if speculation_lengths = [] then speculation_lengths
      else
        (let mean_sl = np_mean (map real_of_int speculation_lengths);
             std_sl = np_std (map real_of_int speculation_lengths)
         in if mean_sl * (1 / 2) < std_sl
            then map (\<lambda>sl.
                   if straggler_tolerance cfg * std_sl < \<bar>real_of_int sl - mean_sl\<bar>
                   then max 1 (min (max_speculation_length cfg)
                          (py_round (real_of_int sl + (3 / 10) * (mean_sl - real_of_int sl))))
                   else sl) speculation_lengths
            else speculation_lengths))"

definition optimize_batch_speculation_lengths ::
  "AdapterConfig \<Rightarrow> int list \<Rightarrow> real list option \<Rightarrow> int list \<times> int" where
  "optimize_batch_speculation_lengths cfg predicted_sls sequence_priorities =
     (if predicted_sls = [] then ([], 0)
      else
        (let sl_cap = calculate_adaptive_sl_cap cfg predicted_sls sequence_priorities;
             optimized_sls = map (\<lambda>sl. min sl sl_cap) predicted_sls
         in (apply_batch_balancing cfg optimized_sls, sl_cap)))"

section \<open>utils.py\<close>

subsection \<open>BatchOptimizer of utils.py\<close>

text \<open>An entry of \<^verbatim>\<open>batch_history\<close> (the time stamp is left out).\<close>

record BatchRecord =
  original_sls :: "int list"
  optimized_sls :: "int list"
  recorded_sl_cap :: int
  variance_reduction :: real

text \<open>
  \<^verbatim>\<open>utils.BatchOptimizer.optimize_batch_speculation_lengths\<close>: bounds 1 and 8 are fixed,
  empty priorities count as none, and every non-empty call is recorded in the history
  (a deque of bound 100).
\<close>

definition utils_optimize_batch_speculation_lengths ::
  "BatchRecord deque \<Rightarrow> int list \<Rightarrow> real list option \<Rightarrow>
     (int list \<times> int) \<times> BatchRecord deque" where
  "utils_optimize_batch_speculation_lengths batch_history predicted_sls priorities =
     (if predicted_sls = [] then (([], 0), batch_history)
      else
        (let plain_mean = real_of_int (sum_list predicted_sls) / real (length predicted_sls);
             mean_cap =
               (case priorities of
                  None \<Rightarrow> plain_mean
                | Some [] \<Rightarrow> plain_mean
                | Some ps \<Rightarrow>
                    sum_list (map (\<lambda>(sl, p). real_of_int sl * p) (zip predicted_sls ps)) /
                      max (sum_list ps) (1 / 10 ^ 8));
             sl_cap = max 1 (min 8 (py_round mean_cap));
             optimized = map (\<lambda>sl. min sl sl_cap) predicted_sls
         in ((optimized, sl_cap),
             deque_append batch_history
               \<lparr>original_sls = predicted_sls, optimized_sls = optimized,
                recorded_sl_cap = sl_cap,
                variance_reduction =
                  np_var (map real_of_int predicted_sls) -
                  np_var (map real_of_int optimized)\<rparr>)))"

subsection \<open>PerformanceMetrics\<close>


text \<open>An entry of the \<^verbatim>\<open>sequence_metrics\<close> defaultdict (time stamps left out).\<close>

record SequenceMetrics =
  sq_total_tokens_generated :: int
  sq_total_tokens_accepted :: int
  sq_total_processing_time :: real








section \<open>core.py\<close>





text \<open>
  A sequence dictionary as \<^verbatim>\<open>decode_batch\<close> reads it: the string under \<^verbatim>\<open>'id'\<close>, the
  value under \<^verbatim>\<open>'prompt'\<close> and the value under \<^verbatim>\<open>'max_tokens'\<close>, each \<open>None\<close> when the
  key is absent.
\<close>

record Sequence =
  seq_id :: "string option"
  prompt :: "py_value option"
  max_tokens :: "py_value option"




subsection \<open>The operations that change a signal processor\<close>

text \<open>
  A signal processor changes through \<^verbatim>\<open>KLDVarianceSignal.update_history\<close>,
  \<^verbatim>\<open>EntropySignal.update_history\<close>, \<^verbatim>\<open>process_verification_step\<close> and the two
  \<^verbatim>\<open>clear()\<close> calls of \<^verbatim>\<open>reset_stats\<close>; its other methods only read. An operation
  that raises leaves the processor as it was.
\<close>

datatype 'l sp_op =
    UpdateKld string "real list"
  | UpdateEntropy string real
  | ProcessStep string "'l list" "'l list" int
  | ClearHistories

definition sp_apply ::
  "('l \<Rightarrow> 'l \<Rightarrow> real option) \<Rightarrow> ('l \<Rightarrow> real option) \<Rightarrow> CombinedSignalProcessor \<Rightarrow>
     'l sp_op \<Rightarrow> CombinedSignalProcessor" where
  "sp_apply torch_kld torch_entropy sp opn =
     (case opn of
        UpdateKld sid vs \<Rightarrow>
          (case kld_update_history (sp_config sp) (sequence_histories sp) sid vs of
             Inl e \<Rightarrow> sp
           | Inr hs \<Rightarrow> sp\<lparr>sequence_histories := hs\<rparr>)
      | UpdateEntropy sid e \<Rightarrow>
          sp\<lparr>entropy_history := entropy_update_history (entropy_history sp) sid e\<rparr>
      | ProcessStep sid dls tls acc \<Rightarrow>
          (case process_verification_step torch_kld torch_entropy sp sid dls tls acc of
             Inl e \<Rightarrow> sp
           | Inr (res, sp') \<Rightarrow> sp')
      | ClearHistories \<Rightarrow> sp\<lparr>sequence_histories := Map.empty, entropy_history := Map.empty\<rparr>)"

text \<open>The capacity invariant of the two per-sequence histories.\<close>

definition histories_bounded :: "CombinedSignalProcessor \<Rightarrow> bool" where
  "histories_bounded sp \<longleftrightarrow>
     (\<forall>sid d. sequence_histories sp sid = Some d \<longrightarrow>
        int (maxlen d) = long_window_size (sp_config sp) \<and> length (items d) \<le> maxlen d) \<and>
     (\<forall>sid d. entropy_history sp sid = Some d \<longrightarrow>
        maxlen d = 10 \<and> length (items d) \<le> 10)"

text \<open>The configurations the first claim ranges over.\<close>

definition valid_config :: "AdapterConfig \<Rightarrow> bool" where
  "valid_config cfg \<longleftrightarrow>
     0 < min_speculation_length cfg \<and> 0 < max_speculation_length cfg \<and>
     min_speculation_length cfg \<le> max_speculation_length cfg"

text \<open>A context whose \<^verbatim>\<open>current_length\<close> and \<^verbatim>\<open>temperature\<close>, where given, are numbers.\<close>

definition is_num :: "py_value \<Rightarrow> bool" where
  "is_num v = (case v of Num _ \<Rightarrow> True | Str _ \<Rightarrow> False)"

definition numeric_context :: "(string \<times> py_value) list option \<Rightarrow> bool" where
  "numeric_context context_info =
     (case context_info of
        None \<Rightarrow> True
      | Some ctx \<Rightarrow>
          is_num (dict_get ctx ''current_length'' (Num 0)) \<and>
          is_num (dict_get ctx ''temperature'' (Num 1)))"

subsection \<open>The speculation round\<close>















subsection \<open>decode\_batch\<close>





text \<open>The dictionary \<^verbatim>\<open>get_sequence_stats\<close> returns.\<close>

record SequenceStats =
  st_current_metrics :: Metrics
  st_total_generated :: int
  st_total_accepted :: int
  st_overall_acceptance_rate :: real
  st_recent_acceptance_rate :: real
  st_recent_avg_sl :: real
  st_state :: "SeqState option"

definition get_sequence_stats ::
  "SpeculationLengthAdapter \<Rightarrow> string \<Rightarrow> SequenceStats \<times> SpeculationLengthAdapter" where
  "get_sequence_stats ad sid =
     (let perf = perf_get (sequence_performance ad) sid;
          rates = items (recent_acceptance_rates perf);
          lens = items (recent_speculation_lengths perf)
      in (\<lparr>st_current_metrics = get_sequence_metrics (signal_processor ad) sid,
           st_total_generated = total_tokens_generated perf,
           st_total_accepted = total_tokens_accepted perf,
           st_overall_acceptance_rate =
             real_of_int (total_tokens_accepted perf) /
               real_of_int (max 1 (total_tokens_generated perf)),
           st_recent_acceptance_rate = (if rates = [] then 0 else np_mean rates),
           st_recent_avg_sl = (if lens = [] then 0 else np_mean (map real_of_int lens)),
           st_state = sequence_states ad sid\<rparr>,
          ad\<lparr>sequence_performance := perf_touch (sequence_performance ad) sid\<rparr>))"

record DSDecodeResult =
  res_sequence_id :: string
  generated_text :: string
  res_tokens_generated :: int
  res_tokens_accepted :: int
  speculation_rounds :: int
  total_time :: real
  average_sl :: real
  final_metrics :: "SequenceStats option"






text \<open>The finalisation loop: time, average length and the adapter's statistics.\<close>

fun finalize_results ::
  "SpeculationLengthAdapter \<Rightarrow> real \<Rightarrow> (string \<times> DSDecodeResult) list \<Rightarrow>
     DSDecodeResult list \<times> SpeculationLengthAdapter" where
  "finalize_results ad batch_time [] = ([], ad)"
| "finalize_results ad batch_time ((sid, r) # rest) =
     (let (stats, ad1) = get_sequence_stats ad sid;
          (rs, ad2) = finalize_results ad1 batch_time rest
      in (r\<lparr>total_time := batch_time,
            average_sl := real_of_int (res_tokens_generated r) /
                            real_of_int (max (speculation_rounds r) 1),
            final_metrics := Some stats\<rparr> # rs, ad2))"



subsection \<open>The states of a decoder\<close>


text \<open>
  The sequence dictionaries the docstring of \<^verbatim>\<open>decode_batch\<close> asks for: an \<^verbatim>\<open>'id'\<close>,
  and a \<^verbatim>\<open>'max_tokens'\<close> that, when given, is a number.
\<close>

definition well_formed_sequence :: "Sequence \<Rightarrow> bool" where
  "well_formed_sequence sq =
     (seq_id sq \<noteq> None \<and>
      (case max_tokens sq of None \<Rightarrow> True | Some (Num m) \<Rightarrow> True | Some (Str s) \<Rightarrow> False))"



section \<open>Facts about the primitives\<close>

lemma np_var_nonneg: "0 \<le> np_var xs"
  unfolding np_var_def np_mean_def
  by (intro divide_nonneg_nonneg sum_list_nonneg) auto

lemma np_std_nonneg: "0 \<le> np_std xs"
  by (simp add: np_std_def np_var_nonneg)

lemma sum_list_le_const:
  "\<forall>x\<in>set xs. x \<le> (c::real) \<Longrightarrow> sum_list xs \<le> real (length xs) * c"
  by (induction xs) (auto simp: algebra_simps)

lemma sum_list_ge_const:
  "\<forall>x\<in>set xs. (c::real) \<le> x \<Longrightarrow> real (length xs) * c \<le> sum_list xs"
  by (induction xs) (auto simp: algebra_simps)

lemma np_mean_le:
  assumes "xs \<noteq> []" and "\<forall>x\<in>set xs. x \<le> c"
  shows "np_mean xs \<le> c"
proof -
  have "sum_list xs \<le> real (length xs) * c"
    using assms(2) by (rule sum_list_le_const)
  then show ?thesis
    using assms(1) unfolding np_mean_def by (simp add: pos_divide_le_eq mult.commute)
qed

lemma np_mean_ge:
  assumes "xs \<noteq> []" and "\<forall>x\<in>set xs. c \<le> x"
  shows "c \<le> np_mean xs"
proof -
  have "real (length xs) * c \<le> sum_list xs"
    using assms(2) by (rule sum_list_ge_const)
  then show ?thesis
    using assms(1) unfolding np_mean_def by (simp add: pos_le_divide_eq mult.commute)
qed

text \<open>Rounding never passes an integer that bounds its argument from above.\<close>

lemma py_round_le:
  assumes "x \<le> real_of_int n"
  shows "py_round x \<le> n"
proof -
  have f: "\<lfloor>x\<rfloor> \<le> n" using assms by (simp add: floor_le_iff)
  show ?thesis
  proof (cases "\<lfloor>x\<rfloor> = n")
    case True
    then have "x - of_int \<lfloor>x\<rfloor> \<le> 0" using assms by simp
    then show ?thesis using True by (simp add: py_round_def Let_def)
  next
    case False
    then have "\<lfloor>x\<rfloor> + 1 \<le> n" using f by simp
    then show ?thesis by (simp add: py_round_def Let_def)
  qed
qed

text \<open>Truncation keeps a value between two integers that enclose it.\<close>

lemma py_int_bounds:
  "real_of_int a \<le> x \<Longrightarrow> x \<le> real_of_int b \<Longrightarrow> a \<le> py_int x \<and> py_int x \<le> b"
  unfolding py_int_def by (auto simp: le_floor_iff ceiling_le_iff floor_le_iff le_ceiling_iff)

lemma clamp_sl_bounds:
  "min_speculation_length cfg \<le> max_speculation_length cfg \<Longrightarrow>
   real_of_int (min_speculation_length cfg) \<le> clamp_sl cfg x \<and>
   clamp_sl cfg x \<le> real_of_int (max_speculation_length cfg)"
  unfolding clamp_sl_def by auto

section \<open>The speculation length adapter\<close>

lemma predict_result:
  "fst (predict_optimal_sl ad sid ctx) =
     (case context_adjusted_sl ad sid ctx of
        Inl e \<Rightarrow> Inl e
      | Inr x \<Rightarrow> Inr (py_int (clamp_sl (adapter_config ad) x)))"
  by (simp add: predict_optimal_sl_def Let_def split: sum.splits)

lemma band_factor_numeric: "is_num v \<Longrightarrow> \<exists>f. band_factor v hi a lo b = Inr f"
  by (cases v) (auto simp: band_factor_def num_gt_def num_lt_def is_num_def split: bool.splits)

lemma adjust_for_context_total:
  "numeric_context ctx \<Longrightarrow> \<exists>y. adjust_for_context x ctx = Inr y"
proof (cases ctx)
  case None
  then show ?thesis by (simp add: adjust_for_context_def)
next
  case (Some d)
  assume n: "numeric_context ctx"
  show ?thesis
  proof (cases d)
    case Nil
    then show ?thesis using Some by (simp add: adjust_for_context_def)
  next
    case (Cons p ps)
    obtain f2 where f2: "band_factor (dict_get d ''current_length'' (Num 0))
        1000 (105 / 100) 50 (95 / 100) = Inr f2"
      using n Some band_factor_numeric by (fastforce simp: numeric_context_def)
    obtain f3 where f3: "band_factor (dict_get d ''temperature'' (Num 1))
        (15 / 10) (9 / 10) (3 / 10) (11 / 10) = Inr f3"
      using n Some band_factor_numeric by (fastforce simp: numeric_context_def)
    show ?thesis
      using f2 f3 unfolding Some Cons adjust_for_context_def by (simp add: Let_def)
  qed
qed

lemma predict_from_stability_no_error:
  "stability_threshold_high cfg \<noteq> stability_threshold_low cfg \<Longrightarrow>
   predict_from_stability cfg m \<noteq> Inl e"
  by (simp add: predict_from_stability_def Let_def)

lemma predict_from_stability_total:
  "stability_threshold_high cfg \<noteq> stability_threshold_low cfg \<Longrightarrow>
   \<exists>y. predict_from_stability cfg m = Inr y"
  using predict_from_stability_no_error [of cfg m]
  by (cases "predict_from_stability cfg m") auto

lemma adjust_for_history_no_error:
  "min_acceptance_rate cfg \<noteq> 0 \<Longrightarrow> adjust_for_history cfg pm sid x \<noteq> Inl e"
  by (simp add: adjust_for_history_def Let_def)

lemma adjust_for_history_total:
  "min_acceptance_rate cfg \<noteq> 0 \<Longrightarrow> \<exists>y. adjust_for_history cfg pm sid x = Inr y"
  using adjust_for_history_no_error [of cfg pm sid x]
  by (cases "adjust_for_history cfg pm sid x") auto

lemma context_adjusted_sl_total:
  assumes "stability_threshold_high (adapter_config ad) \<noteq> stability_threshold_low (adapter_config ad)"
    and "min_acceptance_rate (adapter_config ad) \<noteq> 0"
    and "numeric_context ctx"
  shows "\<exists>y. context_adjusted_sl ad sid ctx = Inr y"
proof -
  obtain b where b: "predict_from_stability (adapter_config ad)
      (get_sequence_metrics (signal_processor ad) sid) = Inr b"
    using assms(1) predict_from_stability_total by blast
  obtain h where h: "adjust_for_history (adapter_config ad)
      (perf_touch (sequence_performance ad) sid) sid b = Inr h"
    using assms(2) adjust_for_history_total by blast
  obtain y where y: "adjust_for_context h ctx = Inr y"
    using assms(3) adjust_for_context_total by blast
  show ?thesis using b h y by (simp add: context_adjusted_sl_def)
qed

text \<open>
  Claim C1. Whenever \<^verbatim>\<open>predict_optimal_sl\<close> returns an integer, that integer lies in
  \<open>[min_speculation_length, max_speculation_length]\<close>, for every adapter state with a
  valid configuration, every sequence id and every optional context dictionary. The call
  does return an integer whenever the two stability thresholds differ, the minimum
  acceptance rate is not zero and the context's numeric fields hold numbers (otherwise
  Python may raise on a division by zero or on comparing a string with a number).
\<close>

theorem predict_optimal_sl_within_bounds:
  assumes "valid_config (adapter_config ad)"
  shows "(\<forall>n. fst (predict_optimal_sl ad sid ctx) = Inr n \<longrightarrow>
            min_speculation_length (adapter_config ad) \<le> n \<and>
            n \<le> max_speculation_length (adapter_config ad)) \<and>
         (stability_threshold_high (adapter_config ad) \<noteq>
            stability_threshold_low (adapter_config ad) \<and>
          min_acceptance_rate (adapter_config ad) \<noteq> 0 \<and> numeric_context ctx \<longrightarrow>
            (\<exists>n. fst (predict_optimal_sl ad sid ctx) = Inr n))"
proof (intro conjI allI impI)
  fix n
  assume r: "fst (predict_optimal_sl ad sid ctx) = Inr n"
  then obtain x where n: "n = py_int (clamp_sl (adapter_config ad) x)"
    by (auto simp: predict_result split: sum.splits)
  have "min_speculation_length (adapter_config ad) \<le> max_speculation_length (adapter_config ad)"
    using assms by (simp add: valid_config_def)
  then have "real_of_int (min_speculation_length (adapter_config ad))
        \<le> clamp_sl (adapter_config ad) x \<and>
      clamp_sl (adapter_config ad) x \<le> real_of_int (max_speculation_length (adapter_config ad))"
    by (rule clamp_sl_bounds)
  then have b: "min_speculation_length (adapter_config ad) \<le> n \<and>
      n \<le> max_speculation_length (adapter_config ad)"
    unfolding n using py_int_bounds by blast
  show "min_speculation_length (adapter_config ad) \<le> n" using b by simp
  show "n \<le> max_speculation_length (adapter_config ad)" using b by simp
next
  assume "stability_threshold_high (adapter_config ad) \<noteq>
            stability_threshold_low (adapter_config ad) \<and>
          min_acceptance_rate (adapter_config ad) \<noteq> 0 \<and> numeric_context ctx"
  then obtain y where "context_adjusted_sl ad sid ctx = Inr y"
    using context_adjusted_sl_total by blast
  then show "\<exists>n. fst (predict_optimal_sl ad sid ctx) = Inr n"
    by (simp add: predict_result)
qed

text \<open>
  Evaluation of the value pipeline for a fresh adapter with the default configurations
  and the context \<^verbatim>\<open>{'task_type': 'code_generation'}\<close>: stability 0.5 interpolates to
  4.5, code generation multiplies by 1.1 and the absent length (0, below 50) by 0.95.
\<close>

lemmas adapter_eval =
  new_SpeculationLengthAdapter_def new_CombinedSignalProcessor_def
  default_AdapterConfig_def default_SignalConfig_def context_adjusted_sl_def
  predict_from_stability_def get_sequence_metrics_def get_regional_stability_def
  adjust_for_history_def perf_touch_def perf_get_def default_Perf_def adjust_for_context_def
  band_factor_def num_gt_def num_lt_def dict_get_def Let_def

lemma fresh_code_generation_value:
  "context_adjusted_sl (new_SpeculationLengthAdapter default_AdapterConfig default_SignalConfig)
     ''s'' (Some [(''task_type'', Str ''code_generation'')]) = Inr (18810 / 4000)"
  by (simp add: adapter_eval)

lemma fresh_adapter_config:
  "adapter_config (new_SpeculationLengthAdapter acfg scfg) = acfg"
  by (simp add: new_SpeculationLengthAdapter_def)

lemma fresh_code_generation_result:
  "fst (predict_optimal_sl (new_SpeculationLengthAdapter default_AdapterConfig default_SignalConfig)
     ''s'' (Some [(''task_type'', Str ''code_generation'')])) = Inr 4"
  unfolding predict_result fresh_code_generation_value fresh_adapter_config
  by (simp add: clamp_sl_def default_AdapterConfig_def py_int_def)

theorem predict_optimal_sl_within_bounds_witness:
  "valid_config (adapter_config
       (new_SpeculationLengthAdapter default_AdapterConfig default_SignalConfig)) \<and>
   fst (predict_optimal_sl
       (new_SpeculationLengthAdapter default_AdapterConfig default_SignalConfig)
       ''s'' (Some [(''task_type'', Str ''code_generation'')])) = Inr 4 \<and>
   min_speculation_length default_AdapterConfig \<le> 4 \<and>
   4 \<le> max_speculation_length default_AdapterConfig"
proof -
  have v: "valid_config (adapter_config
       (new_SpeculationLengthAdapter default_AdapterConfig default_SignalConfig))"
    by (simp add: fresh_adapter_config valid_config_def default_AdapterConfig_def)
  show ?thesis
    using v predict_optimal_sl_within_bounds [OF v, of "''s''"
        "Some [(''task_type'', Str ''code_generation'')]"]
    by (simp add: fresh_code_generation_result fresh_adapter_config)
qed

text \<open>
  Claim C2, as stated, fails: the clamped value is not rounded to the nearest integer
  but truncated by \<^verbatim>\<open>int(final_sl)\<close>. For the fresh default adapter and the context
  \<^verbatim>\<open>{'task_type': 'code_generation'}\<close> the clamped value is 4.7025; rounding gives 5, the
  call returns 4.
\<close>

theorem predict_optimal_sl_rounding_counterexample:
  "context_adjusted_sl (new_SpeculationLengthAdapter default_AdapterConfig default_SignalConfig)
     ''s'' (Some [(''task_type'', Str ''code_generation'')]) = Inr (18810 / 4000) \<and>
   py_round (clamp_sl default_AdapterConfig (18810 / 4000)) = 5 \<and>
   fst (predict_optimal_sl (new_SpeculationLengthAdapter default_AdapterConfig default_SignalConfig)
     ''s'' (Some [(''task_type'', Str ''code_generation'')])) = Inr 4"
proof -
  have "py_round (clamp_sl default_AdapterConfig (18810 / 4000)) = 5"
    by (simp add: clamp_sl_def default_AdapterConfig_def py_round_def Let_def)
  then show ?thesis
    using fresh_code_generation_value fresh_code_generation_result by simp
qed

text \<open>
  Claim C2, amended. For a valid configuration the value returned by
  \<^verbatim>\<open>predict_optimal_sl\<close> is the context-adjusted speculation length clamped to
  \<open>[min_speculation_length, max_speculation_length]\<close> and then rounded down: it is the
  greatest integer not above the clamped value (a clamped value of 4.6 yields 4).
\<close>

theorem predict_optimal_sl_truncates:
  assumes "valid_config (adapter_config ad)"
    and "context_adjusted_sl ad sid ctx = Inr x"
  shows "fst (predict_optimal_sl ad sid ctx) = Inr \<lfloor>clamp_sl (adapter_config ad) x\<rfloor>"
proof -
  have "0 < min_speculation_length (adapter_config ad)"
    using assms(1) by (simp add: valid_config_def)
  then have "0 \<le> clamp_sl (adapter_config ad) x"
    by (simp add: clamp_sl_def max_def)
  then show ?thesis
    using assms(2) by (simp add: predict_result py_int_def)
qed

theorem predict_optimal_sl_truncates_witness:
  "valid_config (adapter_config
       (new_SpeculationLengthAdapter default_AdapterConfig default_SignalConfig)) \<and>
   fst (predict_optimal_sl
       (new_SpeculationLengthAdapter default_AdapterConfig default_SignalConfig)
       ''s'' (Some [(''task_type'', Str ''code_generation'')]))
     = Inr \<lfloor>clamp_sl default_AdapterConfig (18810 / 4000)\<rfloor> \<and>
   \<lfloor>clamp_sl default_AdapterConfig (18810 / 4000)\<rfloor> = 4"
proof -
  have v: "valid_config (adapter_config
       (new_SpeculationLengthAdapter default_AdapterConfig default_SignalConfig))"
    by (simp add: fresh_adapter_config valid_config_def default_AdapterConfig_def)
  have f: "\<lfloor>clamp_sl default_AdapterConfig (18810 / 4000)\<rfloor> = 4"
    by (simp add: clamp_sl_def default_AdapterConfig_def)
  show ?thesis
    using v f predict_optimal_sl_truncates [OF v fresh_code_generation_value]
    by (simp add: fresh_adapter_config)
qed

section \<open>The stability signals\<close>

text \<open>
  Claim C5. For every sequence id and every stored KLD history,
  \<^verbatim>\<open>get_regional_stability\<close> returns a value in \<open>[0, 1]\<close>; for an unknown sequence,
  and for a sequence whose stored history has fewer than \<^verbatim>\<open>min_history_length\<close> samples,
  it returns exactly 0.5.
\<close>

theorem get_regional_stability_range_and_default:
  "0 \<le> get_regional_stability cfg hs sid \<and>
   get_regional_stability cfg hs sid \<le> 1 \<and>
   (hs sid = None \<longrightarrow> get_regional_stability cfg hs sid = 1 / 2) \<and>
   (\<forall>d. hs sid = Some d \<and> int (length (items d)) < min_history_length cfg \<longrightarrow>
      get_regional_stability cfg hs sid = 1 / 2)"
  by (simp add: get_regional_stability_def Let_def split: option.splits)

theorem get_regional_stability_range_and_default_witness:
  "[''a'' \<mapsto> Deque 12 [3]] ''a'' = Some (Deque 12 [3]) \<and>
   int (length (items (Deque 12 [3::real]))) < min_history_length default_SignalConfig \<and>
   get_regional_stability default_SignalConfig [''a'' \<mapsto> Deque 12 [3]] ''a'' = 1 / 2 \<and>
   [''a'' \<mapsto> Deque 12 [3::real]] ''b'' = None \<and>
   get_regional_stability default_SignalConfig [''a'' \<mapsto> Deque 12 [3]] ''b'' = 1 / 2"
  using get_regional_stability_range_and_default
      [of default_SignalConfig "[''a'' \<mapsto> Deque 12 [3]]" "''a''"]
    get_regional_stability_range_and_default
      [of default_SignalConfig "[''a'' \<mapsto> Deque 12 [3]]" "''b''"]
  by (simp add: default_SignalConfig_def)

text \<open>
  A history shorter than the short window, under a configuration whose short window is
  not longer than the long one, is both windows at once.
\<close>

lemma windows_coincide:
  assumes "int (length h) < short_window_size cfg"
    and "short_window_size cfg \<le> long_window_size cfg"
  shows "short_var var cfg h = long_var var cfg h"
proof -
  have "short_window cfg h = h"
    using assms(1) by (simp add: short_window_def py_slice_from_def)
  moreover have "long_window cfg h = h"
    using assms by (simp add: long_window_def)
  ultimately show ?thesis by (simp add: short_var_def long_var_def)
qed

lemmas wvir_eval =
  calculate_wvir_def long_var_def short_var_def long_window_def short_window_def
  py_slice_from_def np_var_def np_mean_def default_SignalConfig_def power2_eq_square

text \<open>
  Claim C6, as stated, fails: the rule for a long-window variance of 0 does not hold for
  every history. With a short window of 4 and a long window of 2, the history
  \<open>[1, 2, 2]\<close> has a long window \<open>[2, 2]\<close> of variance 0 and a short window \<open>[1, 2, 2]\<close>
  of positive variance, and \<^verbatim>\<open>calculate_wvir\<close> returns 0, not 1: the history is shorter
  than the short window, and the function returns before it looks at either variance.
  (Both variances are exact in floating point too: the mean of \<open>[2, 2]\<close> is 2.)
\<close>

theorem calculate_wvir_short_history_counterexample:
  "long_var np_var (default_SignalConfig\<lparr>short_window_size := 4, long_window_size := 2\<rparr>)
     [1, 2, 2] = 0 \<and>
   0 < short_var np_var (default_SignalConfig\<lparr>short_window_size := 4, long_window_size := 2\<rparr>)
     [1, 2, 2] \<and>
   calculate_wvir np_var (/)
     (default_SignalConfig\<lparr>short_window_size := 4, long_window_size := 2\<rparr>) [1, 2, 2] = 0"
  by (simp add: wvir_eval)

text \<open>
  Claim C6, amended. For every KLD history, and whatever the variance and the quotient
  the floating-point operations compute, \<^verbatim>\<open>calculate_wvir\<close> returns a value in
  \<open>[0, 10]\<close>. A history with fewer than \<^verbatim>\<open>short_window_size\<close> samples yields 0. When the
  long-window variance, as computed, is 0, the function returns 1 if the computed
  short-window variance is positive and 0 otherwise, provided the history has at least
  \<^verbatim>\<open>short_window_size\<close> samples or the short window is not longer than the long window.
  A history whose two computed variances are both 0 yields exactly 0.
\<close>

theorem calculate_wvir_range_and_zero_variance:
  "0 \<le> calculate_wvir var quot cfg h \<and> calculate_wvir var quot cfg h \<le> 10 \<and>
   (int (length h) < short_window_size cfg \<longrightarrow> calculate_wvir var quot cfg h = 0) \<and>
   ((short_window_size cfg \<le> int (length h) \<or>
     short_window_size cfg \<le> long_window_size cfg) \<and> long_var var cfg h = 0 \<longrightarrow>
      calculate_wvir var quot cfg h = (if 0 < short_var var cfg h then 1 else 0)) \<and>
   (short_var var cfg h = 0 \<and> long_var var cfg h = 0 \<longrightarrow> calculate_wvir var quot cfg h = 0)"
proof (intro conjI impI)
  show "0 \<le> calculate_wvir var quot cfg h" by (simp add: calculate_wvir_def)
  show "calculate_wvir var quot cfg h \<le> 10" by (simp add: calculate_wvir_def)
next
  assume "int (length h) < short_window_size cfg"
  then show "calculate_wvir var quot cfg h = 0" by (simp add: calculate_wvir_def)
next
  assume a: "(short_window_size cfg \<le> int (length h) \<or>
     short_window_size cfg \<le> long_window_size cfg) \<and> long_var var cfg h = 0"
  show "calculate_wvir var quot cfg h = (if 0 < short_var var cfg h then 1 else 0)"
  proof (cases "short_window_size cfg \<le> int (length h)")
    case True
    then show ?thesis using a by (simp add: calculate_wvir_def)
  next
    case False
    then have "short_var var cfg h = long_var var cfg h"
      using a by (intro windows_coincide) auto
    then show ?thesis using a False by (simp add: calculate_wvir_def)
  qed
next
  assume "short_var var cfg h = 0 \<and> long_var var cfg h = 0"
  then show "calculate_wvir var quot cfg h = 0" by (simp add: calculate_wvir_def)
qed

text \<open>
  Three evaluations with the exact variance: a constant history under the default
  windows (both variances 0), the history \<open>[1, 2]\<close> under a short window of 2 and a long
  window of 1 (long variance 0, short variance 1/4), and the one-sample history \<open>[1]\<close>
  under the default windows (shorter than the short window).
\<close>

theorem calculate_wvir_range_and_zero_variance_witness:
  "short_var np_var default_SignalConfig [1, 1, 1, 1, 1] = 0 \<and>
   long_var np_var default_SignalConfig [1, 1, 1, 1, 1] = 0 \<and>
   calculate_wvir np_var (/) default_SignalConfig [1, 1, 1, 1, 1] = 0 \<and>
   short_window_size (default_SignalConfig\<lparr>short_window_size := 2, long_window_size := 1\<rparr>)
     \<le> int (length [1, 2 :: real]) \<and>
   long_var np_var (default_SignalConfig\<lparr>short_window_size := 2, long_window_size := 1\<rparr>)
     [1, 2] = 0 \<and>
   0 < short_var np_var (default_SignalConfig\<lparr>short_window_size := 2, long_window_size := 1\<rparr>)
     [1, 2] \<and>
   calculate_wvir np_var (/)
     (default_SignalConfig\<lparr>short_window_size := 2, long_window_size := 1\<rparr>) [1, 2] = 1 \<and>
   int (length [1 :: real]) < short_window_size default_SignalConfig \<and>
   calculate_wvir np_var (/) default_SignalConfig [1] = 0"
proof -
  have a: "short_var np_var default_SignalConfig [1, 1, 1, 1, 1] = 0 \<and>
      long_var np_var default_SignalConfig [1, 1, 1, 1, 1] = 0"
    by (simp add: wvir_eval)
  have b: "short_window_size (default_SignalConfig\<lparr>short_window_size := 2, long_window_size := 1\<rparr>)
        \<le> int (length [1, 2 :: real]) \<and>
      long_var np_var (default_SignalConfig\<lparr>short_window_size := 2, long_window_size := 1\<rparr>)
        [1, 2] = 0 \<and>
      0 < short_var np_var (default_SignalConfig\<lparr>short_window_size := 2, long_window_size := 1\<rparr>)
        [1, 2]"
    by (simp add: wvir_eval)
  have c: "int (length [1 :: real]) < short_window_size default_SignalConfig"
    by (simp add: default_SignalConfig_def)
  show ?thesis
    using a b c
      calculate_wvir_range_and_zero_variance
        [of np_var "(/)" default_SignalConfig "[1, 1, 1, 1, 1]"]
      calculate_wvir_range_and_zero_variance
        [of np_var "(/)" "default_SignalConfig\<lparr>short_window_size := 2, long_window_size := 1\<rparr>"
           "[1, 2]"]
      calculate_wvir_range_and_zero_variance [of np_var "(/)" default_SignalConfig "[1]"]
    by simp
qed

section \<open>The batch optimizer\<close>

lemma balancing_le_cap:
  assumes "1 \<le> cap" and "\<forall>sl\<in>set sls. sl \<le> cap"
  shows "\<forall>sl\<in>set (apply_batch_balancing cfg sls). sl \<le> cap"
proof (cases "sls = []")
  case True
  then show ?thesis by (simp add: apply_batch_balancing_def)
next
  case False
  let ?mean_sl = "np_mean (map real_of_int sls)"
  have m: "?mean_sl \<le> real_of_int cap"
    using False assms(2) by (intro np_mean_le) auto
  have "max 1 (min (max_speculation_length cfg)
       (py_round (real_of_int sl + (3 / 10) * (?mean_sl - real_of_int sl)))) \<le> cap"
    if "sl \<in> set sls" for sl
  proof -
    have "real_of_int sl \<le> real_of_int cap" using assms(2) that by simp
    then have "real_of_int sl + (3 / 10) * (?mean_sl - real_of_int sl) \<le> real_of_int cap"
      using m by argo
    then have "py_round (real_of_int sl + (3 / 10) * (?mean_sl - real_of_int sl)) \<le> cap"
      by (rule py_round_le)
    then show ?thesis using assms(1) by simp
  qed
  then show ?thesis
    using assms(2) False by (auto simp: apply_batch_balancing_def Let_def)
qed

text \<open>
  With a tolerance of at least 2 and no negative length, only lengths above the mean can
  be further than \<^verbatim>\<open>straggler_tolerance * std\<close> from it once \<^verbatim>\<open>std\<close> exceeds half the mean,
  and those are moved down.
\<close>

lemma balancing_not_increased:
  assumes tol: "2 \<le> straggler_tolerance cfg" and nn: "\<forall>sl\<in>set sls. 0 \<le> sl"
  shows "list_all2 (\<le>) (apply_batch_balancing cfg sls) sls"
proof (cases "sls = []")
  case True
  then show ?thesis by (simp add: apply_batch_balancing_def)
next
  case False
  let ?mean_sl = "np_mean (map real_of_int sls)"
  let ?std_sl = "np_std (map real_of_int sls)"
  have m0: "0 \<le> ?mean_sl"
    using False nn by (intro np_mean_ge) auto
  have s0: "0 \<le> ?std_sl" by (rule np_std_nonneg)
  have step: "max 1 (min (max_speculation_length cfg)
        (py_round (real_of_int sl + (3 / 10) * (?mean_sl - real_of_int sl)))) \<le> sl"
    if "sl \<in> set sls" and "?mean_sl * (1 / 2) < ?std_sl"
      and "straggler_tolerance cfg * ?std_sl < \<bar>real_of_int sl - ?mean_sl\<bar>" for sl
  proof -
    have "2 * ?std_sl \<le> straggler_tolerance cfg * ?std_sl"
      using tol s0 by (intro mult_right_mono) auto
    then have far: "?mean_sl < \<bar>real_of_int sl - ?mean_sl\<bar>" using that(2,3) by linarith
    have "0 \<le> real_of_int sl" using nn that(1) by simp
    then have above: "?mean_sl < real_of_int sl" using far m0 by linarith
    then have "0 < sl" using m0 by linarith
    then have one: "1 \<le> sl" by simp
    have "real_of_int sl + (3 / 10) * (?mean_sl - real_of_int sl) \<le> real_of_int sl"
      using above by argo
    then have "py_round (real_of_int sl + (3 / 10) * (?mean_sl - real_of_int sl)) \<le> sl"
      by (rule py_round_le)
    then show ?thesis using one by simp
  qed
  show ?thesis
  proof (cases "?mean_sl * (1 / 2) < ?std_sl")
    case True
    have "list_all2 (\<lambda>a b.
            (if straggler_tolerance cfg * ?std_sl < \<bar>real_of_int a - ?mean_sl\<bar>
             then max 1 (min (max_speculation_length cfg)
                    (py_round (real_of_int a + (3 / 10) * (?mean_sl - real_of_int a))))
             else a) \<le> b) sls sls"
      using step True by (intro list_all2_same[THEN iffD2]) auto
    then show ?thesis
      using False True by (simp add: apply_batch_balancing_def Let_def list_all2_map1)
  next
    case nothigh: False
    then show ?thesis
      using False by (simp add: apply_batch_balancing_def Let_def list_all2_same)
  qed
qed

lemma example_2_3_6:
  "optimize_batch_speculation_lengths default_AdapterConfig [2, 3, 6] None = ([2, 3, 4], 4)"
proof -
  have cap: "calculate_adaptive_sl_cap default_AdapterConfig [2, 3, 6] None = 4"
    by (simp add: calculate_adaptive_sl_cap_def default_AdapterConfig_def py_round_def Let_def)
  have v: "np_var [2, 3, 4] = 2 / 3"
    by (simp add: np_var_def np_mean_def power2_eq_square)
  have "sqrt (2 / 3) \<le> 3 / 2"
    by (rule real_le_lsqrt) (simp_all add: power2_eq_square)
  then have bal: "apply_batch_balancing default_AdapterConfig [2, 3, 4] = [2, 3, 4]"
    by (simp add: apply_batch_balancing_def Let_def np_std_def v np_mean_def)
  show ?thesis by (simp add: optimize_batch_speculation_lengths_def cap bal)
qed

text \<open>
  Claim C3, as stated, fails: the balancing pass moves a length that lies far below the
  mean up towards the mean. With \<^verbatim>\<open>straggler_tolerance = 1.0\<close> and otherwise default
  settings, the predictions \<open>[1, 5, 8]\<close> get the cap 5, are capped to \<open>[1, 5, 5]\<close> (mean
  11/3, standard deviation \<open>sqrt (32/9)\<close>, more than half the mean), and the first length,
  8/3 below the mean, becomes \<open>round (1.8) = 2\<close>, above its prediction 1.
\<close>

theorem optimize_batch_increases_counterexample:
  "optimize_batch_speculation_lengths (default_AdapterConfig\<lparr>straggler_tolerance := 1\<rparr>)
     [1, 5, 8] None = ([2, 5, 5], 5)"
proof -
  let ?cfg = "default_AdapterConfig\<lparr>straggler_tolerance := 1\<rparr>"
  have cap: "calculate_adaptive_sl_cap ?cfg [1, 5, 8] None = 5"
    by (simp add: calculate_adaptive_sl_cap_def default_AdapterConfig_def py_round_def Let_def)
  have v: "np_var [1, 5, 5] = 32 / 9"
    by (simp add: np_var_def np_mean_def power2_eq_square)
  have s1: "11 / 6 < sqrt (32 / 9)"
    by (rule real_less_rsqrt) (simp add: power2_eq_square)
  have s2: "sqrt (32 / 9) < 8 / 3"
    by (rule real_less_lsqrt) (simp_all add: power2_eq_square)
  have s3: "4 / 3 \<le> sqrt (32 / 9)"
    by (rule real_le_rsqrt) (simp add: power2_eq_square)
  have bal: "apply_batch_balancing ?cfg [1, 5, 5] = [2, 5, 5]"
    using s1 s2 s3
    by (simp add: apply_batch_balancing_def Let_def np_std_def v np_mean_def
        default_AdapterConfig_def py_round_def)
  show ?thesis by (simp add: optimize_batch_speculation_lengths_def cap bal)
qed

text \<open>
  Claim C3, amended. For every non-empty list of predicted speculation lengths, no
  priorities and a valid configuration, \<^verbatim>\<open>optimize_batch_speculation_lengths\<close> returns
  \<open>sl_cap\<close> equal to the arithmetic mean of the inputs rounded to the nearest integer (a
  tie to the even one) and clamped to \<open>[min_speculation_length, max_speculation_length]\<close>,
  and every element of the returned list is at most \<open>sl_cap\<close>. When moreover
  \<^verbatim>\<open>straggler_tolerance\<close> is at least 2 (the default) and no prediction is negative, the
  returned list has the length of the input and every element is at most the
  corresponding prediction. Under the default configuration \<open>[2, 3, 6]\<close> yields
  \<open>sl_cap = 4\<close> and the lengths \<open>[2, 3, 4]\<close>.
\<close>

theorem optimize_batch_cap_and_bounds:
  assumes "predicted_sls \<noteq> []" and "valid_config cfg"
  shows "snd (optimize_batch_speculation_lengths cfg predicted_sls None) =
           max (min_speculation_length cfg) (min (max_speculation_length cfg)
             (py_round (real_of_int (sum_list predicted_sls) / real (length predicted_sls)))) \<and>
         (\<forall>sl\<in>set (fst (optimize_batch_speculation_lengths cfg predicted_sls None)).
            sl \<le> snd (optimize_batch_speculation_lengths cfg predicted_sls None)) \<and>
         (2 \<le> straggler_tolerance cfg \<and> (\<forall>sl\<in>set predicted_sls. 0 \<le> sl) \<longrightarrow>
            list_all2 (\<le>) (fst (optimize_batch_speculation_lengths cfg predicted_sls None))
              predicted_sls) \<and>
         optimize_batch_speculation_lengths default_AdapterConfig [2, 3, 6] None = ([2, 3, 4], 4)"
proof (intro conjI impI)
  let ?cap = "calculate_adaptive_sl_cap cfg predicted_sls None"
  let ?capped = "map (\<lambda>sl. min sl ?cap) predicted_sls"
  have res: "optimize_batch_speculation_lengths cfg predicted_sls None =
      (apply_batch_balancing cfg ?capped, ?cap)"
    using assms(1) by (simp add: optimize_batch_speculation_lengths_def Let_def)
  have cap1: "1 \<le> ?cap"
    using assms
    by (simp add: calculate_adaptive_sl_cap_def valid_config_def Let_def le_max_iff_disj)
  show "snd (optimize_batch_speculation_lengths cfg predicted_sls None) =
           max (min_speculation_length cfg) (min (max_speculation_length cfg)
             (py_round (real_of_int (sum_list predicted_sls) / real (length predicted_sls))))"
    using assms(1) by (simp add: res calculate_adaptive_sl_cap_def Let_def)
  have "\<forall>sl\<in>set (apply_batch_balancing cfg ?capped). sl \<le> ?cap"
    using cap1 by (intro balancing_le_cap) auto
  then show "\<forall>sl\<in>set (fst (optimize_batch_speculation_lengths cfg predicted_sls None)).
            sl \<le> snd (optimize_batch_speculation_lengths cfg predicted_sls None)"
    by (simp add: res)
  show "list_all2 (\<le>) (fst (optimize_batch_speculation_lengths cfg predicted_sls None))
          predicted_sls"
    if h: "2 \<le> straggler_tolerance cfg \<and> (\<forall>sl\<in>set predicted_sls. 0 \<le> sl)"
  proof -
    have "\<forall>sl\<in>set ?capped. 0 \<le> sl" using h cap1 by auto
    then have "list_all2 (\<le>) (apply_batch_balancing cfg ?capped) ?capped"
      using h by (intro balancing_not_increased) auto
    moreover have "list_all2 (\<le>) ?capped predicted_sls"
      by (simp add: list_all2_map1 list_all2_same)
    ultimately have "list_all2 (\<le>) (apply_batch_balancing cfg ?capped) predicted_sls"
      by (rule list_all2_trans[rotated 1]) auto
    then show ?thesis by (simp add: res)
  qed
  show "optimize_batch_speculation_lengths default_AdapterConfig [2, 3, 6] None = ([2, 3, 4], 4)"
    by (rule example_2_3_6)
qed

theorem optimize_batch_cap_and_bounds_witness:
  "[2, 3, 6 :: int] \<noteq> [] \<and> valid_config default_AdapterConfig \<and>
   2 \<le> straggler_tolerance default_AdapterConfig \<and>
   snd (optimize_batch_speculation_lengths default_AdapterConfig [2, 3, 6] None) = 4 \<and>
   list_all2 (\<le>) (fst (optimize_batch_speculation_lengths default_AdapterConfig [2, 3, 6] None))
     [2, 3, 6]"
proof -
  have a: "[2, 3, 6 :: int] \<noteq> []" by simp
  have v: "valid_config default_AdapterConfig"
    by (simp add: valid_config_def default_AdapterConfig_def)
  have t: "2 \<le> straggler_tolerance default_AdapterConfig"
    by (simp add: default_AdapterConfig_def)
  show ?thesis
    using a v t optimize_batch_cap_and_bounds [OF a v] by simp
qed

lemma py_round_half: "py_round (real_of_int m + 1 / 2) = (if even m then m else m + 1)"
proof -
  have "\<lfloor>real_of_int m + 1 / 2\<rfloor> = m" by linarith
  then show ?thesis by (simp add: py_round_def Let_def)
qed

lemma zip_unit_weights:
  "sum_list (map (\<lambda>(sl, p). real_of_int sl * p) (zip sls (replicate (length sls) 1)))
     = real_of_int (sum_list sls)"
  by (induction sls) auto

text \<open>
  Claim C7, as stated, fails: \<^verbatim>\<open>round\<close> sends a tie to the even integer, not upwards.
  The predictions \<open>[2, 3]\<close> (mean 2.5) get the cap 2 under the default bounds, not 3.
\<close>

theorem sl_cap_half_up_counterexample:
  "calculate_adaptive_sl_cap default_AdapterConfig [2, 3] None = 2 \<and>
   snd (optimize_batch_speculation_lengths default_AdapterConfig [2, 3] None) \<noteq> 3"
  by (simp add: optimize_batch_speculation_lengths_def calculate_adaptive_sl_cap_def
      default_AdapterConfig_def py_round_def Let_def)

text \<open>
  Claim C7, amended. When the unweighted mean of the predicted speculation lengths falls
  exactly halfway between the integers \<open>m\<close> and \<open>m + 1\<close> (of magnitude below \<open>2^52\<close>,
  where the quotient of the two integers is a float without rounding), the batch cap is
  the even one of the two, clamped to the configured bounds: \<open>[2, 3]\<close> (mean 2.5) yields
  2 and \<open>[3, 4]\<close> (mean 3.5) yields 4 under the default bounds. The same holds with the
  priorities all equal to 1, for lengths that are not negative and sum to less than
  \<open>2^53\<close>: then every product, partial sum and the quotient is exact in floating point
  as well. Of other equal weights nothing is stated: the products and their sum are
  rounded, and the quotient need not be the tie.
\<close>

theorem sl_cap_tie_rounds_to_even:
  assumes "predicted_sls \<noteq> []"
    and "real_of_int (sum_list predicted_sls) / real (length predicted_sls)
           = real_of_int m + 1 / 2"
    and "\<bar>m\<bar> < 2 ^ 52"
  shows "calculate_adaptive_sl_cap cfg predicted_sls None =
           max (min_speculation_length cfg) (min (max_speculation_length cfg)
             (if even m then m else m + 1)) \<and>
         ((\<forall>sl\<in>set predicted_sls. 0 \<le> sl) \<and> sum_list predicted_sls < 2 ^ 53 \<longrightarrow>
          calculate_adaptive_sl_cap cfg predicted_sls
              (Some (replicate (length predicted_sls) 1)) =
            max (min_speculation_length cfg) (min (max_speculation_length cfg)
              (if even m then m else m + 1)))"
proof (intro conjI impI)
  show "calculate_adaptive_sl_cap cfg predicted_sls None =
           max (min_speculation_length cfg) (min (max_speculation_length cfg)
             (if even m then m else m + 1))"
    using assms by (simp add: calculate_adaptive_sl_cap_def Let_def py_round_half)
next
  have "(1 :: real) \<le> real (length predicted_sls)"
    using assms(1) by (cases predicted_sls) simp_all
  moreover have "(1 :: real) / 10 ^ 8 \<le> 1" by simp
  ultimately have "(1 :: real) / 10 ^ 8 \<le> real (length predicted_sls)" by linarith
  then have tot: "max (sum_list (replicate (length predicted_sls) (1 :: real))) (1 / 10 ^ 8)
      = real (length predicted_sls)"
    by (simp add: sum_list_replicate max_def)
  have "sum_list (map (\<lambda>(sl, p). real_of_int sl * p)
        (zip predicted_sls (replicate (length predicted_sls) 1))) /
      max (sum_list (replicate (length predicted_sls) (1 :: real))) (1 / 10 ^ 8)
        = real_of_int m + 1 / 2"
    unfolding tot zip_unit_weights using assms(2) by simp
  then show "calculate_adaptive_sl_cap cfg predicted_sls
              (Some (replicate (length predicted_sls) 1)) =
            max (min_speculation_length cfg) (min (max_speculation_length cfg)
              (if even m then m else m + 1))"
    using assms(1) by (simp add: calculate_adaptive_sl_cap_def Let_def py_round_half)
qed

theorem sl_cap_tie_rounds_to_even_witness:
  "[3, 4 :: int] \<noteq> [] \<and>
   real_of_int (sum_list [3, 4]) / real (length [3, 4 :: int]) = real_of_int 3 + 1 / 2 \<and>
   \<bar>3 :: int\<bar> < 2 ^ 52 \<and>
   (0 :: int) \<le> 3 \<and> (0 :: int) \<le> 4 \<and> sum_list [3, 4 :: int] < 2 ^ 53 \<and>
   calculate_adaptive_sl_cap default_AdapterConfig [3, 4] None = 4 \<and>
   calculate_adaptive_sl_cap default_AdapterConfig [3, 4]
     (Some (replicate (length [3, 4 :: int]) 1)) = 4"
proof -
  have a: "[3, 4 :: int] \<noteq> []" by simp
  have b: "real_of_int (sum_list [3, 4]) / real (length [3, 4 :: int]) = real_of_int 3 + 1 / 2"
    by simp
  have m: "\<bar>3 :: int\<bar> < 2 ^ 52" by simp
  have d: "(\<forall>sl\<in>set [3, 4 :: int]. 0 \<le> sl) \<and> sum_list [3, 4 :: int] < 2 ^ 53" by simp
  have c: "max (min_speculation_length default_AdapterConfig)
      (min (max_speculation_length default_AdapterConfig) (if even (3::int) then 3 else 3 + 1)) = 4"
    by (simp add: default_AdapterConfig_def)
  show ?thesis
    using a b m d sl_cap_tie_rounds_to_even [OF a b m, of default_AdapterConfig]
    unfolding c by simp
qed

text \<open>
  Claim C10. Given the empty list of predictions, both batch optimizers (the one of
  \<^verbatim>\<open>adapter.py\<close> and the one of \<^verbatim>\<open>utils.py\<close>, which also leaves its history untouched)
  return the pair \<open>([], 0)\<close>; no rounding or clamping is applied on this path, so under
  a valid configuration the returned cap lies below \<^verbatim>\<open>min_speculation_length\<close>.
\<close>

theorem optimize_batch_empty:
  "optimize_batch_speculation_lengths cfg [] priorities = ([], 0) \<and>
   utils_optimize_batch_speculation_lengths batch_history [] priorities
     = (([], 0), batch_history) \<and>
   (valid_config cfg \<longrightarrow>
      snd (optimize_batch_speculation_lengths cfg [] priorities) < min_speculation_length cfg)"
  by (simp add: optimize_batch_speculation_lengths_def
      utils_optimize_batch_speculation_lengths_def valid_config_def)

theorem optimize_batch_empty_witness:
  "valid_config default_AdapterConfig \<and>
   optimize_batch_speculation_lengths default_AdapterConfig [] None = ([], 0) \<and>
   snd (optimize_batch_speculation_lengths default_AdapterConfig [] None)
     < min_speculation_length default_AdapterConfig"
proof -
  have v: "valid_config default_AdapterConfig"
    by (simp add: valid_config_def default_AdapterConfig_def)
  show ?thesis
    using v optimize_batch_empty [of default_AdapterConfig None "Deque 100 []"] by auto
qed

section \<open>The bounded histories\<close>

lemma deque_append_maxlen [simp]: "maxlen (deque_append d x) = maxlen d"
  by (simp add: deque_append_def)

lemma deque_append_bounded:
  "length (items d) \<le> maxlen d \<Longrightarrow> length (items (deque_append d x)) \<le> maxlen d"
  by (auto simp: deque_append_def)

lemma deque_extend_maxlen [simp]: "maxlen (foldl deque_append d vs) = maxlen d"
  by (induction vs arbitrary: d) simp_all

lemma deque_extend_bounded:
  "length (items d) \<le> maxlen d \<Longrightarrow> length (items (foldl deque_append d vs)) \<le> maxlen d"
proof (induction vs arbitrary: d)
  case Nil then show ?case by simp
next
  case (Cons v vs)
  have "length (items (deque_append d v)) \<le> maxlen (deque_append d v)"
    using Cons.prems by (simp add: deque_append_bounded)
  from Cons.IH[OF this] show ?case by simp
qed

lemma deque_append_items:
  assumes "length (items d) \<le> maxlen d"
  shows "items (deque_append d x) = drop (length (items d @ [x]) - maxlen d) (items d @ [x])"
proof (cases "maxlen d = 0")
  case True then show ?thesis using assms by (simp add: deque_append_def)
next
  case False
  show ?thesis
  proof (cases "length (items d) < maxlen d")
    case True then show ?thesis by (simp add: deque_append_def)
  next
    case full: False
    then have l: "length (items d) = maxlen d" using assms by simp
    then have ne: "items d \<noteq> []" using False by auto
    show ?thesis using False full l ne by (simp add: deque_append_def drop_Suc tl_append2)
  qed
qed

lemma drop_window_twice:
  "drop (length (drop (length zs - m) zs @ vs) - m) (drop (length zs - m) zs @ vs)
     = drop (length (zs @ vs) - m) (zs @ vs)"
proof (cases "length zs \<le> m")
  case True
  then show ?thesis by simp
next
  case False
  let ?a = "length zs - m"
  have l: "length (drop ?a zs @ vs) - m = length vs" using False by simp
  have r: "length (zs @ vs) - m = length vs + ?a" using False by simp
  have "drop (length vs + ?a) (zs @ vs) = drop (length vs) (drop ?a (zs @ vs))"
    by (simp only: drop_drop)
  also have "\<dots> = drop (length vs) (drop ?a zs @ vs)" by simp
  finally show ?thesis unfolding l r by simp
qed

lemma deque_extend_items:
  assumes "length (items d) \<le> maxlen d"
  shows "items (foldl deque_append d vs) = drop (length (items d @ vs) - maxlen d) (items d @ vs)"
  using assms
proof (induction vs arbitrary: d)
  case Nil then show ?case by simp
next
  case (Cons v vs)
  let ?d = "deque_append d v"
  have b: "length (items ?d) \<le> maxlen ?d" using Cons.prems by (simp add: deque_append_bounded)
  have i: "items ?d = drop (length (items d @ [v]) - maxlen d) (items d @ [v])"
    using Cons.prems by (rule deque_append_items)
  have "items (foldl deque_append ?d vs) = drop (length (items ?d @ vs) - maxlen ?d) (items ?d @ vs)"
    using b by (rule Cons.IH)
  also have "\<dots> = drop (length ((items d @ [v]) @ vs) - maxlen d) ((items d @ [v]) @ vs)"
    unfolding i deque_append_maxlen by (rule drop_window_twice)
  finally show ?case by simp
qed

lemma kld_update_history_bounded:
  assumes "\<forall>s d. hs s = Some d \<longrightarrow> int (maxlen d) = long_window_size cfg \<and> length (items d) \<le> maxlen d"
    and "kld_update_history cfg hs sid vs = Inr hs'"
  shows "\<forall>s d. hs' s = Some d \<longrightarrow> int (maxlen d) = long_window_size cfg \<and> length (items d) \<le> maxlen d"
proof (cases "hs sid")
  case None
  then have nn: "\<not> long_window_size cfg < 0"
    using assms(2) by (auto simp: kld_update_history_def deque_new_def split: if_splits)
  then have hs': "hs' = hs(sid \<mapsto> foldl deque_append (Deque (nat (long_window_size cfg)) []) vs)"
    using assms(2) None by (simp add: kld_update_history_def deque_new_def)
  have "length (items (foldl deque_append (Deque (nat (long_window_size cfg)) []) vs))
      \<le> maxlen (Deque (nat (long_window_size cfg)) [])"
    using deque_extend_bounded[of "Deque (nat (long_window_size cfg)) []" vs] by simp
  then show ?thesis using assms(1) nn unfolding hs' by auto
next
  case (Some d0)
  then have hs': "hs' = hs(sid \<mapsto> foldl deque_append d0 vs)"
    using assms(2) by (simp add: kld_update_history_def)
  have "length (items (foldl deque_append d0 vs)) \<le> maxlen d0"
    using assms(1) Some by (intro deque_extend_bounded) auto
  then show ?thesis using assms(1) Some unfolding hs' by auto
qed

lemma entropy_update_history_bounded:
  assumes "\<forall>s d. eh s = Some d \<longrightarrow> maxlen d = 10 \<and> length (items d) \<le> 10"
  shows "\<forall>s d. entropy_update_history eh sid e s = Some d \<longrightarrow> maxlen d = 10 \<and> length (items d) \<le> 10"
proof (cases "eh sid")
  case None
  then show ?thesis using assms
    by (auto simp: entropy_update_history_def deque_append_def)
next
  case (Some d0)
  then have "maxlen d0 = 10 \<and> length (items d0) \<le> maxlen d0" using assms by auto
  then have "maxlen (deque_append d0 e) = 10 \<and> length (items (deque_append d0 e)) \<le> 10"
    using deque_append_bounded[of d0 e] by simp
  then show ?thesis using assms Some by (auto simp: entropy_update_history_def)
qed

lemma process_verification_step_state:
  assumes "process_verification_step ck ce sp sid dls tls acc = Inr (res, sp')"
  shows "\<exists>hs. kld_update_history (sp_config sp) (sequence_histories sp) sid
            (map (\<lambda>(d, t). compute_kld ck d t) (zip dls tls)) = Inr hs \<and>
          sp' = sp\<lparr>sequence_histories := hs,
            entropy_history := (case dls of [] \<Rightarrow> entropy_history sp
               | l # _ \<Rightarrow> entropy_update_history (entropy_history sp) sid (compute_entropy ce l))\<rparr>"
proof (cases "kld_update_history (sp_config sp) (sequence_histories sp) sid
            (map (\<lambda>(d, t). compute_kld ck d t) (zip dls tls))")
  case (Inl e)
  then show ?thesis using assms by (simp add: process_verification_step_def)
next
  case (Inr hs)
  show ?thesis
  proof (cases dls)
    case Nil
    then show ?thesis using assms Inr by (simp add: process_verification_step_def Let_def)
  next
    case (Cons l ls)
    then show ?thesis using assms Inr by (simp add: process_verification_step_def Let_def)
  qed
qed

lemma process_verification_step_bounded:
  assumes "histories_bounded sp"
    and "process_verification_step ck ce sp sid dls tls acc = Inr (res, sp')"
  shows "histories_bounded sp' \<and> sp_config sp' = sp_config sp"
proof -
  obtain hs where hs: "kld_update_history (sp_config sp) (sequence_histories sp) sid
      (map (\<lambda>(d, t). compute_kld ck d t) (zip dls tls)) = Inr hs"
    and sp': "sp' = sp\<lparr>sequence_histories := hs,
      entropy_history := (case dls of [] \<Rightarrow> entropy_history sp
         | l # _ \<Rightarrow> entropy_update_history (entropy_history sp) sid (compute_entropy ce l))\<rparr>"
    using process_verification_step_state[OF assms(2)] by blast
  have k0: "\<forall>s d. sequence_histories sp s = Some d \<longrightarrow>
      int (maxlen d) = long_window_size (sp_config sp) \<and> length (items d) \<le> maxlen d"
    using assms(1) by (simp add: histories_bounded_def)
  have k: "\<forall>s d. hs s = Some d \<longrightarrow>
      int (maxlen d) = long_window_size (sp_config sp) \<and> length (items d) \<le> maxlen d"
    by (rule kld_update_history_bounded[OF k0 hs])
  have e0: "\<forall>s d. entropy_history sp s = Some d \<longrightarrow> maxlen d = 10 \<and> length (items d) \<le> 10"
    using assms(1) by (simp add: histories_bounded_def)
  show ?thesis
  proof (cases dls)
    case Nil
    then show ?thesis using k e0 unfolding sp' by (simp add: histories_bounded_def)
  next
    case (Cons l ls)
    then show ?thesis using k entropy_update_history_bounded[OF e0, of sid "compute_entropy ce l"]
      unfolding sp' by (simp add: histories_bounded_def)
  qed
qed

lemma sp_apply_bounded:
  assumes "histories_bounded sp"
  shows "histories_bounded (sp_apply ck ce sp opn) \<and> sp_config (sp_apply ck ce sp opn) = sp_config sp"
proof (cases opn)
  case (UpdateKld sid vs)
  show ?thesis
  proof (cases "kld_update_history (sp_config sp) (sequence_histories sp) sid vs")
    case (Inl e)
    then show ?thesis using assms UpdateKld by (simp add: sp_apply_def)
  next
    case (Inr hs)
    have k0: "\<forall>s d. sequence_histories sp s = Some d \<longrightarrow>
      int (maxlen d) = long_window_size (sp_config sp) \<and> length (items d) \<le> maxlen d"
      using assms by (simp add: histories_bounded_def)
    have "\<forall>s d. hs s = Some d \<longrightarrow>
      int (maxlen d) = long_window_size (sp_config sp) \<and> length (items d) \<le> maxlen d"
      by (rule kld_update_history_bounded[OF k0 Inr])
    then show ?thesis using assms UpdateKld Inr by (simp add: sp_apply_def histories_bounded_def)
  qed
next
  case (UpdateEntropy sid e)
  have "\<forall>s d. entropy_history sp s = Some d \<longrightarrow> maxlen d = 10 \<and> length (items d) \<le> 10"
    using assms by (simp add: histories_bounded_def)
  from entropy_update_history_bounded[OF this, of sid e]
  show ?thesis using assms UpdateEntropy by (simp add: sp_apply_def histories_bounded_def)
next
  case (ProcessStep sid dls tls acc)
  show ?thesis
  proof (cases "process_verification_step ck ce sp sid dls tls acc")
    case (Inl e)
    then show ?thesis using assms ProcessStep by (simp add: sp_apply_def)
  next
    case (Inr p)
    obtain res sp' where p: "p = (res, sp')" by (cases p)
    show ?thesis using process_verification_step_bounded[OF assms, of ck ce sid dls tls acc res sp']
        Inr p ProcessStep by (simp add: sp_apply_def)
  qed
next
  case ClearHistories
  then show ?thesis by (simp add: sp_apply_def histories_bounded_def)
qed

lemma run_bounded:
  "histories_bounded sp \<Longrightarrow>
   histories_bounded (foldl (sp_apply ck ce) sp ops) \<and>
   sp_config (foldl (sp_apply ck ce) sp ops) = sp_config sp"
proof (induction ops arbitrary: sp)
  case Nil then show ?case by simp
next
  case (Cons opn ops)
  have a: "histories_bounded (sp_apply ck ce sp opn) \<and> sp_config (sp_apply ck ce sp opn) = sp_config sp"
    using Cons.prems by (rule sp_apply_bounded)
  then show ?case using Cons.IH[of "sp_apply ck ce sp opn"] by simp
qed

lemma fresh_bounded: "histories_bounded (new_CombinedSignalProcessor cfg)"
  by (simp add: histories_bounded_def new_CombinedSignalProcessor_def)


text \<open>
  Claim C9. In every signal processor reached from a fresh one by any sequence of
  operations, for every sequence id the KLD history holds at most \<^verbatim>\<open>long_window_size\<close>
  samples and the entropy history at most 10. Updating a stored KLD history with new
  values leaves the latest \<^verbatim>\<open>long_window_size\<close> samples of the old history followed by
  the new values, in their order; in particular one insert into a full history drops
  exactly the oldest sample of the old history followed by the new one (for a positive
  capacity, the oldest stored sample), and likewise for the entropy history with its
  capacity of 10. Every operation preserves the capacity invariant.
\<close>

theorem histories_never_exceed_capacity:
  assumes "sp = foldl (sp_apply torch_kld torch_entropy) (new_CombinedSignalProcessor cfg) ops"
  shows "(\<forall>sid d. sequence_histories sp sid = Some d \<longrightarrow>
            int (length (items d)) \<le> long_window_size cfg) \<and>
         (\<forall>sid d. entropy_history sp sid = Some d \<longrightarrow> length (items d) \<le> 10) \<and>
         (\<forall>sid d vs. sequence_histories sp sid = Some d \<longrightarrow>
            (\<exists>d'. sequence_histories
                     (sp_apply torch_kld torch_entropy sp (UpdateKld sid vs)) sid = Some d' \<and>
                   items d' = drop (length (items d @ vs) - nat (long_window_size cfg))
                                (items d @ vs))) \<and>
         (\<forall>sid d x. sequence_histories sp sid = Some d \<and>
              int (length (items d)) = long_window_size cfg \<longrightarrow>
            (\<exists>d'. sequence_histories
                     (sp_apply torch_kld torch_entropy sp (UpdateKld sid [x])) sid = Some d' \<and>
                   items d' = drop 1 (items d @ [x]))) \<and>
         (\<forall>sid d x. entropy_history sp sid = Some d \<and> length (items d) = 10 \<longrightarrow>
            (\<exists>d'. entropy_history
                     (sp_apply torch_kld torch_entropy sp (UpdateEntropy sid x)) sid = Some d' \<and>
                   items d' = tl (items d) @ [x])) \<and>
         histories_bounded (sp_apply torch_kld torch_entropy sp opn)"
proof -
  have inv: "histories_bounded sp" and cfg: "sp_config sp = cfg"
    using run_bounded [OF fresh_bounded, of torch_kld torch_entropy cfg ops]
    by (simp_all add: assms new_CombinedSignalProcessor_def)
  have kld: "int (maxlen d) = long_window_size cfg \<and> length (items d) \<le> maxlen d"
    if "sequence_histories sp sid = Some d" for sid d
    using inv cfg that by (simp add: histories_bounded_def)
  have ent: "maxlen d = 10 \<and> length (items d) \<le> 10"
    if "entropy_history sp sid = Some d" for sid d
    using inv that by (simp add: histories_bounded_def)
  have upd: "\<exists>d'. sequence_histories
                     (sp_apply torch_kld torch_entropy sp (UpdateKld sid vs)) sid = Some d' \<and>
                   items d' = drop (length (items d @ vs) - nat (long_window_size cfg))
                                (items d @ vs)"
    if h: "sequence_histories sp sid = Some d" for sid d vs
  proof -
    have m: "maxlen d = nat (long_window_size cfg)" using kld [OF h] by linarith
    have "items (foldl deque_append d vs)
        = drop (length (items d @ vs) - maxlen d) (items d @ vs)"
      using kld [OF h] by (intro deque_extend_items) simp
    then show ?thesis
      using h m by (simp add: sp_apply_def kld_update_history_def)
  qed
  show ?thesis
  proof (intro conjI allI impI)
    fix sid d
    assume "sequence_histories sp sid = Some d"
    then show "int (length (items d)) \<le> long_window_size cfg"
      using kld by fastforce
  next
    fix sid d
    assume "entropy_history sp sid = Some d"
    then show "length (items d) \<le> 10" using ent by blast
  next
    fix sid d vs
    assume "sequence_histories sp sid = Some d"
    then show "\<exists>d'. sequence_histories
                     (sp_apply torch_kld torch_entropy sp (UpdateKld sid vs)) sid = Some d' \<and>
                   items d' = drop (length (items d @ vs) - nat (long_window_size cfg))
                                (items d @ vs)"
      by (rule upd)
  next
    fix sid d x
    assume a: "sequence_histories sp sid = Some d \<and>
              int (length (items d)) = long_window_size cfg"
    then have "length (items d @ [x]) - nat (long_window_size cfg) = 1" by auto
    then show "\<exists>d'. sequence_histories
                     (sp_apply torch_kld torch_entropy sp (UpdateKld sid [x])) sid = Some d' \<and>
                   items d' = drop 1 (items d @ [x])"
      using upd [of sid d "[x]"] a by simp
  next
    fix sid d x
    assume a: "entropy_history sp sid = Some d \<and> length (items d) = 10"
    then have "maxlen d = 10" using ent by blast
    then show "\<exists>d'. entropy_history
                     (sp_apply torch_kld torch_entropy sp (UpdateEntropy sid x)) sid = Some d' \<and>
                   items d' = tl (items d) @ [x]"
      using a by (simp add: sp_apply_def entropy_update_history_def deque_append_def)
  next
    show "histories_bounded (sp_apply torch_kld torch_entropy sp opn)"
      using sp_apply_bounded [OF inv] by blast
  qed
qed

text \<open>
  A run under a long window of 2: three KLD samples for one sequence leave the last two,
  and ten entropy samples fill the entropy history.
\<close>

lemmas sp_eval =
  sp_apply_def kld_update_history_def entropy_update_history_def deque_new_def
  deque_append_def new_CombinedSignalProcessor_def default_SignalConfig_def

lemma example_run:
  "\<lparr>sp_config = default_SignalConfig\<lparr>long_window_size := 2\<rparr>,
      sequence_histories = [''a'' \<mapsto> Deque 2 [2, 3]],
      entropy_history = [''a'' \<mapsto> Deque 10 [0, 1, 2, 3, 4, 5, 6, 7, 8, 9]]\<rparr>
   = foldl (sp_apply (\<lambda>(d::real) t. Some 0) (\<lambda>l. Some 0))
       (new_CombinedSignalProcessor (default_SignalConfig\<lparr>long_window_size := 2\<rparr>))
       [UpdateKld ''a'' [1, 2, 3], UpdateEntropy ''a'' 0, UpdateEntropy ''a'' 1,
        UpdateEntropy ''a'' 2, UpdateEntropy ''a'' 3, UpdateEntropy ''a'' 4,
        UpdateEntropy ''a'' 5, UpdateEntropy ''a'' 6, UpdateEntropy ''a'' 7,
        UpdateEntropy ''a'' 8, UpdateEntropy ''a'' 9]"
  by (simp add: sp_eval)

theorem histories_never_exceed_capacity_witness:
  "sequence_histories
     \<lparr>sp_config = default_SignalConfig\<lparr>long_window_size := 2\<rparr>,
      sequence_histories = [''a'' \<mapsto> Deque 2 [2, 3]],
      entropy_history = [''a'' \<mapsto> Deque 10 [0, 1, 2, 3, 4, 5, 6, 7, 8, 9]]\<rparr> ''a''
     = Some (Deque 2 [2, 3]) \<and>
   int (length (items (Deque 2 [2, 3 :: real])))
     = long_window_size (default_SignalConfig\<lparr>long_window_size := 2\<rparr>) \<and>
   (\<exists>d'. sequence_histories (sp_apply (\<lambda>(d::real) t. Some 0) (\<lambda>l. Some 0)
       \<lparr>sp_config = default_SignalConfig\<lparr>long_window_size := 2\<rparr>,
        sequence_histories = [''a'' \<mapsto> Deque 2 [2, 3]],
        entropy_history = [''a'' \<mapsto> Deque 10 [0, 1, 2, 3, 4, 5, 6, 7, 8, 9]]\<rparr>
       (UpdateKld ''a'' [4])) ''a'' = Some d' \<and> items d' = [3, 4]) \<and>
   (\<exists>d'. entropy_history (sp_apply (\<lambda>(d::real) t. Some 0) (\<lambda>l. Some 0)
       \<lparr>sp_config = default_SignalConfig\<lparr>long_window_size := 2\<rparr>,
        sequence_histories = [''a'' \<mapsto> Deque 2 [2, 3]],
        entropy_history = [''a'' \<mapsto> Deque 10 [0, 1, 2, 3, 4, 5, 6, 7, 8, 9]]\<rparr>
       (UpdateEntropy ''a'' 10)) ''a'' = Some d' \<and>
     items d' = [1, 2, 3, 4, 5, 6, 7, 8, 9, 10])"
proof -
  let ?sp = "\<lparr>sp_config = default_SignalConfig\<lparr>long_window_size := 2\<rparr>,
      sequence_histories = [''a'' \<mapsto> Deque 2 [2, 3]],
      entropy_history = [''a'' \<mapsto> Deque 10 [0, 1, 2, 3, 4, 5, 6, 7, 8, 9]]\<rparr>"
  note t = histories_never_exceed_capacity [OF example_run, of ClearHistories]
  have k: "sequence_histories ?sp ''a'' = Some (Deque 2 [2, 3]) \<and>
      int (length (items (Deque 2 [2, 3 :: real])))
        = long_window_size (default_SignalConfig\<lparr>long_window_size := 2\<rparr>)"
    by (simp add: default_SignalConfig_def)
  have e: "entropy_history ?sp ''a'' = Some (Deque 10 [0, 1, 2, 3, 4, 5, 6, 7, 8, 9]) \<and>
      length (items (Deque 10 [0, 1, 2, 3, 4, 5, 6, 7, 8, 9 :: real])) = 10"
    by simp
  have "\<exists>d'. sequence_histories (sp_apply (\<lambda>(d::real) t. Some 0) (\<lambda>l. Some 0) ?sp
        (UpdateKld ''a'' [4])) ''a'' = Some d' \<and>
      items d' = drop 1 (items (Deque 2 [2, 3]) @ [4])"
    using t k by blast
  moreover have "\<exists>d'. entropy_history (sp_apply (\<lambda>(d::real) t. Some 0) (\<lambda>l. Some 0) ?sp
        (UpdateEntropy ''a'' 10)) ''a'' = Some d' \<and>
      items d' = tl (items (Deque 10 [0, 1, 2, 3, 4, 5, 6, 7, 8, 9])) @ [10]"
    using t e by blast
  ultimately show ?thesis using k by simp
qed

section \<open>What the decoder's operations leave unchanged\<close>











lemma finalize_results_length:
  "length (fst (finalize_results ad bt rs)) = length rs"
  by (induction rs arbitrary: ad) (auto simp: case_prod_beta)




section \<open>Reset\<close>










end
